theory Spec2Isabelle
  imports Complex_Main "HOL-Library.Multiset"
begin

section \<open>Numbers\<close>

text \<open>
  The statistics of \<^verbatim>\<open>plot_cvr_distributions\<close> are numpy \<^verbatim>\<open>float64\<close> values. A
  finite value is modelled as a real number (rounding is not modelled); the three kinds
  of non-finite value that numpy and scipy produce instead of raising are kept, because
  the code's behaviour on degenerate inputs is to compute with them.
\<close>

datatype npfloat = Fin real | PInf | NInf | NaN

fun fneg :: "npfloat \<Rightarrow> npfloat" where
  "fneg (Fin x) = Fin (- x)"
| "fneg PInf = NInf"
| "fneg NInf = PInf"
| "fneg NaN = NaN"

fun fadd :: "npfloat \<Rightarrow> npfloat \<Rightarrow> npfloat" where
  "fadd (Fin x) (Fin y) = Fin (x + y)"
| "fadd NaN _ = NaN"
| "fadd _ NaN = NaN"
| "fadd PInf NInf = NaN"
| "fadd NInf PInf = NaN"
| "fadd PInf _ = PInf"
| "fadd _ PInf = PInf"
| "fadd NInf _ = NInf"
| "fadd _ NInf = NInf"

definition fsub :: "npfloat \<Rightarrow> npfloat \<Rightarrow> npfloat" where
  "fsub a b = fadd a (fneg b)"

fun fmul :: "npfloat \<Rightarrow> npfloat \<Rightarrow> npfloat" where
  "fmul (Fin x) (Fin y) = Fin (x * y)"
| "fmul NaN _ = NaN"
| "fmul _ NaN = NaN"
| "fmul PInf (Fin y) = (if y = 0 then NaN else if 0 < y then PInf else NInf)"
| "fmul NInf (Fin y) = (if y = 0 then NaN else if 0 < y then NInf else PInf)"
| "fmul (Fin x) PInf = (if x = 0 then NaN else if 0 < x then PInf else NInf)"
| "fmul (Fin x) NInf = (if x = 0 then NaN else if 0 < x then NInf else PInf)"
| "fmul PInf PInf = PInf"
| "fmul NInf NInf = PInf"
| "fmul PInf NInf = NInf"
| "fmul NInf PInf = NInf"

text \<open>
  Division of numpy floats never raises: a zero divisor gives an infinity or nan (and a
  warning). Signed zeros are not modelled; a zero divisor counts as positive.
\<close>

fun fdiv :: "npfloat \<Rightarrow> npfloat \<Rightarrow> npfloat" where
  "fdiv (Fin x) (Fin y) =
     (if y = 0 then (if x = 0 then NaN else if 0 < x then PInf else NInf) else Fin (x / y))"
| "fdiv NaN _ = NaN"
| "fdiv _ NaN = NaN"
| "fdiv (Fin x) PInf = Fin 0"
| "fdiv (Fin x) NInf = Fin 0"
| "fdiv PInf (Fin y) = (if 0 \<le> y then PInf else NInf)"
| "fdiv NInf (Fin y) = (if 0 \<le> y then NInf else PInf)"
| "fdiv PInf PInf = NaN"
| "fdiv PInf NInf = NaN"
| "fdiv NInf PInf = NaN"
| "fdiv NInf NInf = NaN"

text \<open>Comparisons: every comparison with nan is false.\<close>

fun fle :: "npfloat \<Rightarrow> npfloat \<Rightarrow> bool" where
  "fle (Fin x) (Fin y) = (x \<le> y)"
| "fle NaN _ = False"
| "fle _ NaN = False"
| "fle NInf _ = True"
| "fle _ PInf = True"
| "fle PInf _ = False"
| "fle _ NInf = False"

fun flt :: "npfloat \<Rightarrow> npfloat \<Rightarrow> bool" where
  "flt (Fin x) (Fin y) = (x < y)"
| "flt NaN _ = False"
| "flt _ NaN = False"
| "flt PInf _ = False"
| "flt _ NInf = False"
| "flt NInf _ = True"
| "flt _ PInf = True"

definition fge :: "npfloat \<Rightarrow> npfloat \<Rightarrow> bool" where
  "fge a b = fle b a"

definition fgt :: "npfloat \<Rightarrow> npfloat \<Rightarrow> bool" where
  "fgt a b = flt b a"

text \<open>\<^verbatim>\<open>np.sqrt\<close>: nan (and a warning) on a negative argument, never an exception.\<close>

fun np_sqrt :: "npfloat \<Rightarrow> npfloat" where
  "np_sqrt (Fin x) = (if x < 0 then NaN else Fin (sqrt x))"
| "np_sqrt PInf = PInf"
| "np_sqrt NInf = NaN"
| "np_sqrt NaN = NaN"

section \<open>Errors\<close>

text \<open>
  \<open>ZeroDivisionError\<close> and \<open>ValueError\<close> are the exceptions that the Python operations
  used by the source can raise. \<open>EmptySampleError\<close> and \<open>DomainError\<close> are the names of
  the specification's error taxonomy; the source defines and raises neither, and no
  function below returns them.
\<close>

datatype error = ZeroDivisionError | ValueError | EmptySampleError | DomainError

definition bind_err :: "error + 'a \<Rightarrow> ('a \<Rightarrow> error + 'b) \<Rightarrow> error + 'b" where
  "bind_err m f = (case m of Inl e \<Rightarrow> Inl e | Inr x \<Rightarrow> f x)"

text \<open>Python's \<^verbatim>\<open>a / b\<close> on two \<^verbatim>\<open>int\<close>s: true division, raising on a zero divisor.\<close>

definition py_truediv :: "int \<Rightarrow> int \<Rightarrow> error + real" where
  "py_truediv a b = (if b = 0 then Inl ZeroDivisionError else Inr (real_of_int a / real_of_int b))"

section \<open>numpy arrays\<close>

text \<open>\<^verbatim>\<open>len(a)\<close> of a one-dimensional array.\<close>

definition py_len :: "'a list \<Rightarrow> int" where
  "py_len xs = int (length xs)"

text \<open>
  \<^verbatim>\<open>a.mean()\<close> of an integer array: the sum divided by the count, as a float; nan (and
  a warning) for an empty array. numpy adds the entries up in \<^verbatim>\<open>float64\<close>, in an order
  of its own. The sum below is the exact one: it is numpy's when no partial sum, in any
  order, leaves the integers that \<^verbatim>\<open>float64\<close> holds exactly, which \<open>exact_sum\<close>
  states; samples of zeros and ones are of that kind. For other arrays numpy's sum is
  rounded and depends on the order of the entries, which this model does not show.
\<close>

definition np_mean :: "int list \<Rightarrow> npfloat" where
  "np_mean xs = (if xs = [] then NaN else Fin (real_of_int (sum_list xs) / real (length xs)))"

definition exact_sum :: "int list \<Rightarrow> bool" where
  "exact_sum xs \<longleftrightarrow> sum_list (map abs xs) \<le> 2 ^ 53"

text \<open>
  \<^verbatim>\<open>np.linspace(start, stop, num)\<close> with the default \<^verbatim>\<open>endpoint=True\<close>: the points
  \<^verbatim>\<open>start + i * step\<close> with \<^verbatim>\<open>step = (stop - start) / (num - 1)\<close>, the last one set to
  \<^verbatim>\<open>stop\<close> itself.
\<close>

definition linspace :: "npfloat \<Rightarrow> npfloat \<Rightarrow> nat \<Rightarrow> npfloat list" where
  "linspace start stop num =
     (if num = 0 then []
      else if num = 1 then [start]
      else (let step = fdiv (fsub stop start) (Fin (real (num - 1)))
            in map (\<lambda>i. fadd (fmul (Fin (real i)) step) start) [0..<num - 1] @ [stop]))"

text \<open>
  \<^verbatim>\<open>np.maximum\<close> and \<^verbatim>\<open>np.minimum\<close> of two floats propagate nan; \<^verbatim>\<open>a.max()\<close>,
  \<^verbatim>\<open>a.min()\<close>, \<^verbatim>\<open>np.max(a)\<close> and \<^verbatim>\<open>np.min(a)\<close> reduce an array with them and raise
  \<^verbatim>\<open>ValueError\<close> on an empty one.
\<close>

fun fmaximum :: "npfloat \<Rightarrow> npfloat \<Rightarrow> npfloat" where
  "fmaximum NaN _ = NaN"
| "fmaximum _ NaN = NaN"
| "fmaximum a b = (if fle a b then b else a)"

fun fminimum :: "npfloat \<Rightarrow> npfloat \<Rightarrow> npfloat" where
  "fminimum NaN _ = NaN"
| "fminimum _ NaN = NaN"
| "fminimum a b = (if fle a b then a else b)"

fun np_amax :: "npfloat list \<Rightarrow> error + npfloat" where
  "np_amax [] = Inl ValueError"
| "np_amax (x # xs) = Inr (fold fmaximum xs x)"

fun np_amin :: "npfloat list \<Rightarrow> error + npfloat" where
  "np_amin [] = Inl ValueError"
| "np_amin (x # xs) = Inr (fold fminimum xs x)"

section \<open>The normal distribution of scipy.stats\<close>

text \<open>
  \<^verbatim>\<open>stats.norm(loc, scale)\<close> is scipy's frozen normal distribution. scipy is not part of
  the repository; \<open>norm_pdf\<close> and \<open>norm_ppf\<close> follow the argument handling of
  \<^verbatim>\<open>rv_continuous.pdf\<close> and \<^verbatim>\<open>rv_continuous.ppf\<close>, which return nan for a scale that is
  not positive and for a probability outside \<open>[0, 1]\<close>, and the ends of the support for
  the probabilities 0 and 1; they never raise. The quantile function of the standard
  normal distribution on the open interval (\<^verbatim>\<open>scipy.special.ndtri\<close>) is a parameter
  \<open>ndtri\<close> of everything that uses it.
\<close>

fun std_pdf :: "npfloat \<Rightarrow> npfloat" where
  "std_pdf (Fin z) = Fin (exp (- (z * z) / 2) / sqrt (2 * pi))"
| "std_pdf PInf = Fin 0"
| "std_pdf NInf = Fin 0"
| "std_pdf NaN = NaN"

definition norm_pdf :: "npfloat \<Rightarrow> npfloat \<Rightarrow> npfloat \<Rightarrow> npfloat" where
  "norm_pdf loc scale x =
     (if \<not> fgt scale (Fin 0) then NaN
      else (case fdiv (fsub x loc) scale of
              NaN \<Rightarrow> NaN
            | z \<Rightarrow> fdiv (std_pdf z) scale))"

definition norm_ppf :: "(real \<Rightarrow> real) \<Rightarrow> npfloat \<Rightarrow> npfloat \<Rightarrow> real \<Rightarrow> npfloat" where
  "norm_ppf ndtri loc scale q =
     (if \<not> (fgt scale (Fin 0) \<and> loc \<noteq> NaN) then NaN
      else if q = 0 then fadd (fmul NInf scale) loc
      else if q = 1 then fadd (fmul PInf scale) loc
      else if 0 < q \<and> q < 1 then fadd (fmul (Fin (ndtri q)) scale) loc
      else NaN)"

section \<open>The statistics (lines 22 to 39 of the source)\<close>

text \<open>
  The local variables of \<^verbatim>\<open>plot_cvr_distributions\<close> when it reaches line 41, under the
  names the source gives them.
\<close>

record locals =
  control_trials :: int
  experimental_trials :: int
  control_cvr :: npfloat
  experimental_cvr :: npfloat
  population_std :: npfloat
  experimental_std :: npfloat
  x_control :: "npfloat list"
  x_experimental :: "npfloat list"
  y_control :: "npfloat list"
  y_experimental :: "npfloat list"

text \<open>
  Lines 23 to 39, in the source's order. The only operations that can raise are the
  three divisions \<^verbatim>\<open>1 / control_trials\<close> and \<^verbatim>\<open>1 / experimental_trials\<close> (line 31) and
  \<^verbatim>\<open>1 / experimental_trials\<close> (line 32), on Python \<^verbatim>\<open>int\<close>s.
\<close>

definition statistics :: "int list \<Rightarrow> int list \<Rightarrow> error + locals" where
  "statistics control experimental =
     (let control_trials = py_len control;
          experimental_trials = py_len experimental;
          control_cvr = np_mean control;
          experimental_cvr = np_mean experimental
      in bind_err (py_truediv 1 control_trials) (\<lambda>inv_c.
         bind_err (py_truediv 1 experimental_trials) (\<lambda>inv_e.
         let population_std =
               np_sqrt (fmul (fmul (Fin (inv_c + inv_e)) control_cvr) (fsub (Fin 1) control_cvr))
         in bind_err (py_truediv 1 experimental_trials) (\<lambda>inv_e'.
         let experimental_std =
               np_sqrt (fmul (fmul (Fin inv_e') experimental_cvr) (fsub (Fin 1) experimental_cvr));
             x_control = linspace (fsub control_cvr (fmul (Fin 4) population_std))
                                  (fadd control_cvr (fmul (Fin 4) population_std)) 1000;
             x_experimental = linspace (fsub experimental_cvr (fmul (Fin 4) experimental_std))
                                       (fadd experimental_cvr (fmul (Fin 4) experimental_std)) 1000;
             y_control = map (norm_pdf control_cvr population_std) x_control;
             y_experimental = map (norm_pdf experimental_cvr experimental_std) x_experimental
         in Inr \<lparr> control_trials = control_trials,
                  experimental_trials = experimental_trials,
                  control_cvr = control_cvr,
                  experimental_cvr = experimental_cvr,
                  population_std = population_std,
                  experimental_std = experimental_std,
                  x_control = x_control,
                  x_experimental = x_experimental,
                  y_control = y_control,
                  y_experimental = y_experimental \<rparr>))))"

section \<open>The chart (lines 41 to 137 of the source)\<close>

text \<open>
  matplotlib is the chart's rendering surface. Its calls are recorded in the order the
  source issues them, with the data they are given; what matplotlib draws from them is
  not modelled. One call of the source can fail on the values the function computes:
  setting the limits of the y axis (\<open>set_ylim\<close> below). The other calls take nan and
  infinite data without raising. The text of an annotation is \<^verbatim>\<open>str(round(v, 4))\<close>, kept as the value
  \<open>v\<close> and the number of decimals. Arguments that are the same constant at every call
  of a kind (line width, line style, font size, alignment, figure size) are left out.
\<close>

datatype label = Str_round npfloat nat

datatype plot_call =
    Subplots
  | Plot "npfloat list" "npfloat list" string string
  | Fill_between "npfloat list" npfloat "npfloat list" string "bool list"
  | Vlines npfloat npfloat npfloat string
  | Set_ylim npfloat npfloat
  | Hlines npfloat npfloat npfloat string
  | Plot_marker npfloat npfloat string
  | Annotate label npfloat npfloat
  | Legend
  | Set_title string
  | Yaxis_set_visible bool
  | Xaxis_set_visible bool
  | Show

text \<open>
  The state a call runs in: the numpy arrays on the heap, by reference (the two samples
  are passed by reference and may be the same array), and the calls matplotlib has
  received so far (pyplot's process-wide current figure).
\<close>

type_synonym ref = nat

record py_state =
  arrays :: "ref \<Rightarrow> int list"
  pyplot :: "plot_call list"

type_synonym 'a py = "py_state \<Rightarrow> (error + 'a) \<times> py_state"

definition py_return :: "'a \<Rightarrow> 'a py" where
  "py_return x st = (Inr x, st)"

definition py_bind :: "'a py \<Rightarrow> ('a \<Rightarrow> 'b py) \<Rightarrow> 'b py" where
  "py_bind m f st = (case m st of (Inl e, st') \<Rightarrow> (Inl e, st') | (Inr x, st') \<Rightarrow> f x st')"

definition py_then :: "unit py \<Rightarrow> 'b py \<Rightarrow> 'b py" where
  "py_then m n = py_bind m (\<lambda>_. n)"

definition lift :: "error + 'a \<Rightarrow> 'a py" where
  "lift r st = (r, st)"

definition call :: "plot_call \<Rightarrow> unit py" where
  "call c st = (Inr (), st\<lparr>pyplot := pyplot st @ [c]\<rparr>)"

text \<open>
  \<^verbatim>\<open>ax.set(ylim=(lo, hi))\<close>: matplotlib checks the two limits before it sets
  them, and raises \<^verbatim>\<open>ValueError\<close> (``Axis limits cannot be NaN or Inf'') when one of
  them is not finite.
\<close>

fun is_finite :: "npfloat \<Rightarrow> bool" where
  "is_finite (Fin x) = True"
| "is_finite PInf = False"
| "is_finite NInf = False"
| "is_finite NaN = False"

definition set_ylim :: "npfloat \<Rightarrow> npfloat \<Rightarrow> unit py" where
  "set_ylim lo hi =
     (if is_finite lo \<and> is_finite hi then call (Set_ylim lo hi)
      else lift (Inl ValueError))"

text \<open>Lines 50 to 89: the shaded tails of the control curve and their boundaries.\<close>

definition tail_regions :: "(real \<Rightarrow> real) \<Rightarrow> locals \<Rightarrow> real \<Rightarrow> int \<Rightarrow> unit py" where
  "tail_regions ndtri l alpha tails =
     (let pdf = norm_pdf (control_cvr l) (population_std l);
          ppf = norm_ppf ndtri (control_cvr l) (population_std l)
      in if tails = 2 then
           py_then (call (Fill_between (x_control l) (Fin 0) (map pdf (x_control l)) ''green''
                            (map (\<lambda>x. fge x (ppf (1 - alpha / 2))) (x_control l))))
          (py_then (call (Vlines (ppf (1 - alpha / 2)) (Fin 0) (pdf (ppf (1 - alpha / 2))) ''grey''))
          (py_then (call (Fill_between (x_control l) (Fin 0) (map pdf (x_control l)) ''green''
                            (map (\<lambda>x. fle x (ppf (alpha / 2))) (x_control l))))
                   (call (Vlines (ppf (alpha / 2)) (Fin 0) (pdf (ppf (alpha / 2))) ''grey''))))
         else
           py_then (call (Fill_between (x_control l) (Fin 0) (map pdf (x_control l)) ''green''
                            (map (\<lambda>x. fge x (ppf (1 - alpha))) (x_control l))))
                   (call (Vlines (ppf (1 - alpha)) (Fin 0) (pdf (ppf (1 - alpha))) ''grey'')))"

text \<open>
  Lines 41 to 137. \<open>ye_max\<close> and \<open>yc_max\<close> are \<^verbatim>\<open>y_experimental.max()\<close> and
  \<^verbatim>\<open>y_control.max()\<close>, which the source evaluates again at each use, in this order.
  Line 94 raises when \<open>ymax\<close> is not finite; the calls of lines 42 to 89 have been
  made by then, and those of lines 97 to 137 are not made.
\<close>

definition render :: "(real \<Rightarrow> real) \<Rightarrow> locals \<Rightarrow> real \<Rightarrow> int \<Rightarrow> unit py" where
  "render ndtri l alpha tails =
     py_then (call Subplots)
    (py_then (call (Plot (x_control l) (y_control l) ''control'' ''grey''))
    (py_then (call (Plot (x_experimental l) (y_experimental l) ''experimental'' ''green''))
    (py_then (tail_regions ndtri l alpha tails)
    (py_bind (lift (np_amax (y_experimental l))) (\<lambda>ye_max.
     py_bind (lift (np_amax (y_control l))) (\<lambda>yc_max.
     let ymax = (if fgt ye_max yc_max then ye_max else yc_max) in
     py_then (set_ylim (fmul ymax (Fin (- 0.1))) (fmul ymax (Fin 1.1)))
    (py_bind (lift (np_amin (x_control l))) (\<lambda>xc_min.
     py_bind (lift (np_amin (x_experimental l))) (\<lambda>xe_min.
     py_bind (lift (np_amin [xc_min, xe_min])) (\<lambda>xmin.
     py_bind (lift (np_amax (x_control l))) (\<lambda>xc_max.
     py_bind (lift (np_amax (x_experimental l))) (\<lambda>xe_max.
     py_bind (lift (np_amax [xc_max, xe_max])) (\<lambda>xmax.
     py_then (call (Hlines (Fin 0) xmin xmax ''black''))
    (py_then (call (Vlines (experimental_cvr l) (Fin 0) ye_max ''grey''))
    (py_then (call (Plot_marker (experimental_cvr l) (Fin 0) ''black''))
    (py_then (call (Annotate (Str_round (experimental_cvr l) 4)
                      (experimental_cvr l) (fmul ymax (Fin (- 0.07)))))
    (py_then (call (Vlines (control_cvr l) (Fin 0) yc_max ''grey''))
    (py_then (call (Plot_marker (control_cvr l) (Fin 0) ''black''))
    (py_then (call (Annotate (Str_round (control_cvr l) 4)
                      (control_cvr l) (fmul ymax (Fin (- 0.07)))))
    (py_then (call Legend)
    (py_then (call (Set_title ''CVR: experimental vs control''))
    (py_then (call (Yaxis_set_visible False))
    (py_then (call (Xaxis_set_visible False))
             (call Show))))))))))))))))))))))))"

section \<open>plot\_cvr\_distributions\<close>

text \<open>
  The whole function. \<open>control\<close> and \<open>experimental\<close> are references to the two sample
  arrays; lines 23 to 28 read them with \<^verbatim>\<open>len\<close> and \<^verbatim>\<open>.mean()\<close> and nothing after line
  28 uses them. An exception leaves the function at once, with the state as it is then.
\<close>

definition plot_cvr_distributions ::
    "(real \<Rightarrow> real) \<Rightarrow> ref \<Rightarrow> ref \<Rightarrow> real \<Rightarrow> int \<Rightarrow> unit py" where
  "plot_cvr_distributions ndtri control experimental alpha tails =
     (\<lambda>st. py_bind (lift (statistics (arrays st control) (arrays st experimental)))
             (\<lambda>l. render ndtri l alpha tails) st)"

text \<open>The calls matplotlib received between two states.\<close>

definition issued :: "py_state \<Rightarrow> py_state \<Rightarrow> plot_call list" where
  "issued st st' = drop (length (pyplot st)) (pyplot st')"

section \<open>Observing a run\<close>

text \<open>
  The x positions of the vertical lines among a list of calls, and the \<^verbatim>\<open>where\<close> masks
  of the shaded regions, in the order of the calls.
\<close>

fun vline_x :: "plot_call \<Rightarrow> npfloat option" where
  "vline_x (Vlines x ymin ymax color) = Some x"
| "vline_x _ = None"

fun shaded_where :: "plot_call \<Rightarrow> bool list option" where
  "shaded_where (Fill_between x y1 y2 color w) = Some w"
| "shaded_where _ = None"

definition vlines_at :: "plot_call list \<Rightarrow> npfloat list" where
  "vlines_at cs = List.map_filter vline_x cs"

definition shaded :: "plot_call list \<Rightarrow> bool list list" where
  "shaded cs = List.map_filter shaded_where cs"

text \<open>The mean of a non-empty integer sample as a real number.\<close>

abbreviation rate :: "int list \<Rightarrow> real" where
  "rate xs \<equiv> real_of_int (sum_list xs) / real (length xs)"

text \<open>
  A computation \<open>emits r cs\<close> when, from every state, it ends with the result \<open>r\<close>,
  has sent exactly the calls \<open>cs\<close> to matplotlib and has changed nothing else.
\<close>

definition emits :: "'a py \<Rightarrow> error + 'a \<Rightarrow> plot_call list \<Rightarrow> bool" where
  "emits m r cs \<longleftrightarrow> (\<forall>st. m st = (r, st\<lparr>pyplot := pyplot st @ cs\<rparr>))"

definition effect :: "'a py \<Rightarrow> bool" where
  "effect m \<longleftrightarrow> (\<exists>r cs. emits m r cs)"

text \<open>
  Concrete inputs for closed instances. \<open>sample_state c e\<close> holds the control sample at
  reference 0 and the experimental sample at reference 1, and no call has been issued.
  The theorems below hold for every \<open>ndtri\<close>; a closed instance needs one, and
  \<open>ndtri_logistic\<close> is the quantile function of the logistic distribution of variance
  1, a standard approximation of the normal one.
\<close>

definition sample_state :: "int list \<Rightarrow> int list \<Rightarrow> py_state" where
  "sample_state c e =
     \<lparr> arrays = (\<lambda>r. if r = 0 then c else if r = 1 then e else []), pyplot = [] \<rparr>"

definition ndtri_logistic :: "real \<Rightarrow> real" where
  "ndtri_logistic q = ln (q / (1 - q)) * sqrt 3 / pi"

section \<open>Lemmas on the statistics\<close>

lemma statistics_empty:
  "control = [] \<or> experimental = [] \<Longrightarrow> statistics control experimental = Inl ZeroDivisionError"
  by (auto simp: statistics_def py_len_def py_truediv_def bind_err_def Let_def)

lemma statistics_nonempty:
  assumes "control \<noteq> []" "experimental \<noteq> []"
  shows "\<exists>l. statistics control experimental = Inr l
    \<and> control_trials l = int (length control)
    \<and> experimental_trials l = int (length experimental)
    \<and> control_cvr l = Fin (rate control)
    \<and> experimental_cvr l = Fin (rate experimental)
    \<and> population_std l = np_sqrt (Fin ((1 / real (length control) + 1 / real (length experimental)) * rate control * (1 - rate control)))
    \<and> experimental_std l = np_sqrt (Fin (1 / real (length experimental) * rate experimental * (1 - rate experimental)))
    \<and> x_control l = linspace (fsub (control_cvr l) (fmul (Fin 4) (population_std l))) (fadd (control_cvr l) (fmul (Fin 4) (population_std l))) 1000
    \<and> x_experimental l = linspace (fsub (experimental_cvr l) (fmul (Fin 4) (experimental_std l))) (fadd (experimental_cvr l) (fmul (Fin 4) (experimental_std l))) 1000
    \<and> y_control l = map (norm_pdf (control_cvr l) (population_std l)) (x_control l)
    \<and> y_experimental l = map (norm_pdf (experimental_cvr l) (experimental_std l)) (x_experimental l)"
  using assms
  by (simp add: statistics_def py_len_def py_truediv_def bind_err_def Let_def np_mean_def fsub_def)

lemma length_linspace: "length (linspace a b n) = n"
  by (simp add: linspace_def Let_def)

lemma linspace_nonempty: "0 < n \<Longrightarrow> linspace a b n \<noteq> []"
  using length_linspace [of a b n] by auto

lemma linspace_nth:
  assumes "2 \<le> n" "i < n"
  shows "linspace (Fin a) (Fin b) n ! i = Fin (a + real i * ((b - a) / real (n - 1)))"
proof (cases "i = n - 1")
  case True
  from assms have "real (n - 1) \<noteq> 0" by simp
  then have "a + real (n - 1) * ((b - a) / real (n - 1)) = b" by simp
  with assms True show ?thesis
    by (simp add: linspace_def Let_def nth_append)
next
  case False
  with assms have "i < n - 1" by simp
  with assms show ?thesis
    by (simp add: linspace_def Let_def nth_append fsub_def mult.commute)
qed

lemma statistics_arrays_nonempty:
  assumes "control \<noteq> []" "experimental \<noteq> []" "statistics control experimental = Inr l"
  shows "x_control l \<noteq> [] \<and> x_experimental l \<noteq> [] \<and> y_control l \<noteq> [] \<and> y_experimental l \<noteq> []"
proof -
  from statistics_nonempty [OF assms(1,2)] assms(3)
  have "length (x_control l) = 1000" "length (x_experimental l) = 1000"
    "length (y_control l) = 1000" "length (y_experimental l) = 1000"
    by (auto simp: length_linspace)
  then show ?thesis by auto
qed

lemma binary_sum_bounds:
  "set xs \<subseteq> {0, 1} \<Longrightarrow> 0 \<le> sum_list xs \<and> sum_list xs \<le> int (length xs)"
  by (induction xs) auto

lemma binary_rate_bounds:
  assumes "set xs \<subseteq> {0, 1}"
  shows "0 \<le> rate xs \<and> rate xs \<le> 1"
proof (cases "xs = []")
  case True
  then show ?thesis by simp
next
  case False
  then have pos: "0 < real (length xs)" by simp
  from binary_sum_bounds [OF assms]
  have "0 \<le> real_of_int (sum_list xs)" and "real_of_int (sum_list xs) \<le> real (length xs)"
    by linarith+
  with pos show ?thesis by (simp add: divide_le_eq)
qed

lemma binary_exact_sum:
  assumes "set xs \<subseteq> {0, 1}" and "length xs \<le> 2 ^ 53"
  shows "exact_sum xs"
proof -
  from assms(1) have "map abs xs = xs" by (induction xs) auto
  moreover have "sum_list xs \<le> 2 ^ 53"
  proof -
    from assms(2) have "int (length xs) \<le> int (2 ^ 53)" by (simp only: of_nat_le_iff)
    also have "int (2 ^ 53) = 2 ^ 53" by simp
    finally show ?thesis using binary_sum_bounds [OF assms(1)] by linarith
  qed
  ultimately show ?thesis by (simp add: exact_sum_def)
qed

lemma constant_sum: "\<forall>x\<in>set xs. x = b \<Longrightarrow> sum_list xs = b * int (length xs)"
  by (induction xs) (auto simp: algebra_simps)

lemma constant_rate:
  assumes "xs \<noteq> []" "\<forall>x\<in>set xs. x = b"
  shows "rate xs = real_of_int b"
  using assms constant_sum [OF assms(2)] by simp

lemma np_sqrt_nonneg: "0 \<le> x \<Longrightarrow> np_sqrt (Fin x) = Fin (sqrt x)"
  by simp

lemma variance_nonneg:
  fixes k r :: real
  assumes "0 \<le> k" "0 \<le> r" "r \<le> 1"
  shows "0 \<le> k * r * (1 - r)"
  using assms by simp

lemma grid_points:
  assumes "i < 1000"
  shows "linspace (fsub (Fin r) (fmul (Fin 4) (Fin s))) (fadd (Fin r) (fmul (Fin 4) (Fin s))) 1000 ! i
           = Fin (r - 4 * s + real i * (8 * s / 999))"
proof -
  have "linspace (Fin (r - 4 * s)) (Fin (r + 4 * s)) 1000 ! i
          = Fin (r - 4 * s + real i * ((r + 4 * s - (r - 4 * s)) / real (1000 - 1)))"
    using assms by (intro linspace_nth) simp_all
  then show ?thesis by (simp add: fsub_def)
qed

lemma statistics_length_sum:
  assumes "length c = length c'" and "sum_list c = sum_list c'"
      and "length e = length e'" and "sum_list e = sum_list e'"
  shows "statistics c e = statistics c' e'"
proof -
  have m: "np_mean xs = (if length xs = 0 then NaN else Fin (rate xs))" for xs
    by (simp add: np_mean_def)
  show ?thesis
    unfolding statistics_def py_len_def m assms ..
qed

lemma mset_length_sum:
  fixes xs ys :: "int list"
  assumes "mset xs = mset ys"
  shows "length xs = length ys" and "sum_list xs = sum_list ys"
proof -
  from assms show "length xs = length ys" by (rule mset_eq_length)
  from assms have "sum_mset (mset xs) = sum_mset (mset ys)" by simp
  then show "sum_list xs = sum_list ys" by (simp only: sum_mset_sum_list)
qed

section \<open>Lemmas on the effects\<close>

lemma emits_call: "emits (call c) (Inr ()) [c]"
  by (simp add: emits_def call_def)

lemma emits_lift: "emits (lift r) r []"
  by (simp add: emits_def lift_def)

lemma emits_bind_Inl: "emits m (Inl e) cs \<Longrightarrow> emits (py_bind m f) (Inl e) cs"
  by (simp add: emits_def py_bind_def)

lemma emits_bind_Inr:
  "emits m (Inr x) cs \<Longrightarrow> emits (f x) r cs' \<Longrightarrow> emits (py_bind m f) r (cs @ cs')"
  by (simp add: emits_def py_bind_def)

lemma emits_then:
  "emits m (Inr ()) cs \<Longrightarrow> emits n r cs' \<Longrightarrow> emits (py_then m n) r (cs @ cs')"
  by (simp add: py_then_def emits_bind_Inr)

lemma effect_call: "effect (call c)"
  unfolding effect_def using emits_call by blast

lemma effect_lift: "effect (lift r)"
  unfolding effect_def using emits_lift by blast

lemma effect_bind:
  assumes "effect m" and "\<And>x. effect (f x)"
  shows "effect (py_bind m f)"
proof -
  from assms(1) obtain r cs where m: "emits m r cs" unfolding effect_def by blast
  show ?thesis
  proof (cases r)
    case (Inl e)
    with m have "emits (py_bind m f) (Inl e) cs" by (simp add: emits_bind_Inl)
    then show ?thesis unfolding effect_def by blast
  next
    case (Inr x)
    from assms(2) obtain r' cs' where "emits (f x) r' cs'" unfolding effect_def by blast
    with m Inr have "emits (py_bind m f) r' (cs @ cs')" by (simp add: emits_bind_Inr)
    then show ?thesis unfolding effect_def by blast
  qed
qed

lemma effect_then: "effect m \<Longrightarrow> effect n \<Longrightarrow> effect (py_then m n)"
  by (simp add: py_then_def effect_bind)

lemma effect_tail_regions: "effect (tail_regions ndtri l alpha tails)"
  by (simp add: tail_regions_def Let_def effect_then effect_call)

lemma effect_set_ylim: "effect (set_ylim lo hi)"
  by (simp add: set_ylim_def effect_call effect_lift)

lemma effect_render: "effect (render ndtri l alpha tails)"
  unfolding render_def Let_def
  by (intro effect_then effect_bind effect_call effect_lift effect_tail_regions effect_set_ylim)

section \<open>Lemmas on the chart\<close>

lemma np_amax_nonempty: "xs \<noteq> [] \<Longrightarrow> np_amax xs = Inr (fold fmaximum (tl xs) (hd xs))"
  by (cases xs) simp_all

lemma np_amin_nonempty: "xs \<noteq> [] \<Longrightarrow> np_amin xs = Inr (fold fminimum (tl xs) (hd xs))"
  by (cases xs) simp_all

text \<open>
  The run of \<open>render\<close> on arrays that are not empty, in terms of the two maxima of line
  93: whether line 94 accepts the limits decides how the run ends and which calls are
  made.
\<close>

lemma render_result:
  assumes "x_control l \<noteq> []" "x_experimental l \<noteq> []"
      and "np_amax (y_experimental l) = Inr ye" "np_amax (y_control l) = Inr yc"
  shows "fst (render ndtri l alpha tails st) =
    (if is_finite (fmul (if fgt ye yc then ye else yc) (Fin (- 0.1)))
        \<and> is_finite (fmul (if fgt ye yc then ye else yc) (Fin 1.1))
     then Inr () else Inl ValueError)"
  using assms
  by (simp add: render_def tail_regions_def set_ylim_def Let_def py_then_def py_bind_def
      call_def lift_def np_amax_nonempty np_amin_nonempty)

lemma render_vlines:
  assumes "x_control l \<noteq> []" "x_experimental l \<noteq> []"
      and "np_amax (y_experimental l) = Inr ye" "np_amax (y_control l) = Inr yc"
  shows "vlines_at (issued st (snd (render ndtri l alpha tails st))) =
    (if tails = 2 then
       [norm_ppf ndtri (control_cvr l) (population_std l) (1 - alpha / 2),
        norm_ppf ndtri (control_cvr l) (population_std l) (alpha / 2)]
     else
       [norm_ppf ndtri (control_cvr l) (population_std l) (1 - alpha)])
    @ (if is_finite (fmul (if fgt ye yc then ye else yc) (Fin (- 0.1)))
          \<and> is_finite (fmul (if fgt ye yc then ye else yc) (Fin 1.1))
       then [experimental_cvr l, control_cvr l] else [])"
  using assms
  by (simp add: render_def tail_regions_def set_ylim_def Let_def py_then_def py_bind_def
      call_def lift_def np_amax_nonempty np_amin_nonempty issued_def vlines_at_def shaded_def)

lemma render_shaded:
  assumes "x_control l \<noteq> []" "x_experimental l \<noteq> []"
      and "np_amax (y_experimental l) = Inr ye" "np_amax (y_control l) = Inr yc"
  shows "shaded (issued st (snd (render ndtri l alpha tails st))) =
    (if tails = 2 then
       [map (\<lambda>x. fge x (norm_ppf ndtri (control_cvr l) (population_std l) (1 - alpha / 2))) (x_control l),
        map (\<lambda>x. fle x (norm_ppf ndtri (control_cvr l) (population_std l) (alpha / 2))) (x_control l)]
     else
       [map (\<lambda>x. fge x (norm_ppf ndtri (control_cvr l) (population_std l) (1 - alpha))) (x_control l)])"
  using assms
  by (simp add: render_def tail_regions_def set_ylim_def Let_def py_then_def py_bind_def
      call_def lift_def np_amax_nonempty np_amin_nonempty issued_def vlines_at_def shaded_def)

lemma render_curves:
  assumes "x_control l \<noteq> []" "x_experimental l \<noteq> []" "y_control l \<noteq> []" "y_experimental l \<noteq> []"
  shows "take 3 (issued st (snd (render ndtri l alpha tails st))) =
    [Subplots, Plot (x_control l) (y_control l) ''control'' ''grey'',
     Plot (x_experimental l) (y_experimental l) ''experimental'' ''green'']"
  using assms
  by (simp add: render_def tail_regions_def set_ylim_def Let_def py_then_def py_bind_def
      call_def lift_def np_amax_nonempty np_amin_nonempty issued_def)

lemma render_last:
  assumes "x_control l \<noteq> []" "x_experimental l \<noteq> []"
      and "np_amax (y_experimental l) = Inr ye" "np_amax (y_control l) = Inr yc"
      and "is_finite (fmul (if fgt ye yc then ye else yc) (Fin (- 0.1)))"
      and "is_finite (fmul (if fgt ye yc then ye else yc) (Fin 1.1))"
  shows "last (issued st (snd (render ndtri l alpha tails st))) = Show"
  using assms
  by (simp add: render_def tail_regions_def set_ylim_def Let_def py_then_def py_bind_def
      call_def lift_def np_amax_nonempty np_amin_nonempty issued_def)

section \<open>Lemmas on the limits of the y axis\<close>

lemma norm_pdf_Fin: "0 < s \<Longrightarrow> \<exists>w. norm_pdf (Fin r) (Fin s) (Fin v) = Fin w"
  by (simp add: norm_pdf_def fgt_def fsub_def)

lemma norm_pdf_NaN: "\<not> fgt scale (Fin 0) \<Longrightarrow> norm_pdf loc scale x = NaN"
  by (simp add: norm_pdf_def)

lemma linspace_Fin:
  assumes "2 \<le> n" and "x \<in> set (linspace (Fin a) (Fin b) n)"
  shows "\<exists>v. x = Fin v"
proof -
  from assms(2) obtain i where "i < n" and "x = linspace (Fin a) (Fin b) n ! i"
    by (auto simp: in_set_conv_nth length_linspace)
  with assms(1) show ?thesis by (simp add: linspace_nth)
qed

lemma fold_fmaximum_Fin:
  "\<forall>y\<in>set ys. \<exists>v. y = Fin v \<Longrightarrow> \<exists>w. fold fmaximum ys (Fin a) = Fin w"
proof (induction ys arbitrary: a)
  case Nil
  then show ?case by simp
next
  case (Cons y ys)
  then obtain v where "y = Fin v" by auto
  then have "\<exists>b. fmaximum y (Fin a) = Fin b" by simp
  with Cons show ?case by auto
qed

lemma fold_fmaximum_NaN: "fold fmaximum ys NaN = NaN"
proof (induction ys)
  case Nil
  then show ?case by simp
next
  case (Cons y ys)
  have "fmaximum y NaN = NaN" by (cases y) simp_all
  with Cons show ?case by simp
qed

lemma np_amax_Fin:
  assumes "xs \<noteq> []" and "\<forall>x\<in>set xs. \<exists>v. x = Fin v"
  shows "\<exists>w. np_amax xs = Inr (Fin w)"
proof (cases xs)
  case Nil
  with assms(1) show ?thesis by simp
next
  case (Cons x ys)
  with assms(2) obtain v where "x = Fin v" and "\<forall>y\<in>set ys. \<exists>v. y = Fin v" by auto
  with Cons fold_fmaximum_Fin [of ys v] show ?thesis by simp
qed

lemma np_amax_NaN:
  assumes "xs \<noteq> []" and "\<forall>x\<in>set xs. x = NaN"
  shows "np_amax xs = Inr NaN"
proof (cases xs)
  case Nil
  with assms(1) show ?thesis by simp
next
  case (Cons x ys)
  with assms(2) have "x = NaN" by simp
  with Cons show ?thesis by (simp add: fold_fmaximum_NaN)
qed

lemma np_amax_density:
  assumes "std = NaN \<or> (\<exists>s. std = Fin s)"
  shows "\<exists>y. np_amax (map (norm_pdf (Fin r) std)
                 (linspace (fsub (Fin r) (fmul (Fin 4) std)) (fadd (Fin r) (fmul (Fin 4) std)) 1000))
               = Inr y
             \<and> (y = NaN \<or> (\<exists>w. y = Fin w))
             \<and> ((\<exists>s. std = Fin s \<and> 0 < s) \<longrightarrow> (\<exists>w. y = Fin w))
             \<and> (\<not> fgt std (Fin 0) \<longrightarrow> y = NaN)"
proof (cases "fgt std (Fin 0)")
  case True
  with assms obtain s where s: "std = Fin s" "0 < s" by (auto simp: fgt_def)
  let ?xs = "linspace (fsub (Fin r) (fmul (Fin 4) std)) (fadd (Fin r) (fmul (Fin 4) std)) 1000"
  have xs: "?xs = linspace (Fin (r - 4 * s)) (Fin (r + 4 * s)) 1000"
    by (simp add: s fsub_def)
  have "\<forall>y\<in>set (map (norm_pdf (Fin r) std) ?xs). \<exists>w. y = Fin w"
  proof
    fix y assume "y \<in> set (map (norm_pdf (Fin r) std) ?xs)"
    then obtain x where x: "x \<in> set ?xs" and y: "y = norm_pdf (Fin r) std x" by auto
    from x have "x \<in> set (linspace (Fin (r - 4 * s)) (Fin (r + 4 * s)) 1000)"
      by (simp only: xs)
    then have "\<exists>v. x = Fin v" by (rule linspace_Fin [rotated]) simp
    then obtain v where "x = Fin v" ..
    with y s norm_pdf_Fin [of s r v] show "\<exists>w. y = Fin w" by simp
  qed
  moreover have "map (norm_pdf (Fin r) std) ?xs \<noteq> []"
    by (simp add: linspace_nonempty)
  ultimately obtain w where "np_amax (map (norm_pdf (Fin r) std) ?xs) = Inr (Fin w)"
    using np_amax_Fin by blast
  with True show ?thesis by simp
next
  case False
  let ?xs = "linspace (fsub (Fin r) (fmul (Fin 4) std)) (fadd (Fin r) (fmul (Fin 4) std)) 1000"
  from False have "\<forall>y\<in>set (map (norm_pdf (Fin r) std) ?xs). y = NaN"
    by (simp add: norm_pdf_NaN)
  moreover have "map (norm_pdf (Fin r) std) ?xs \<noteq> []"
    by (simp add: linspace_nonempty)
  ultimately have "np_amax (map (norm_pdf (Fin r) std) ?xs) = Inr NaN"
    by (rule np_amax_NaN [rotated])
  moreover from False have "\<not> (\<exists>s. std = Fin s \<and> 0 < s)" by (auto simp: fgt_def)
  ultimately show ?thesis using False by simp
qed

lemma np_sqrt_Fin_cases: "np_sqrt (Fin v) = NaN \<or> (\<exists>s. np_sqrt (Fin v) = Fin s)"
  by simp

lemma limits_finite:
  assumes "yc = Fin w" and "ye = NaN \<or> (\<exists>u. ye = Fin u)"
  shows "is_finite (fmul (if fgt ye yc then ye else yc) (Fin k))"
  using assms by (auto simp: fgt_def)

text \<open>
  The two maxima of line 93 for the statistics of two non-empty samples: each is a
  finite number or nan; the control one is finite when the pooled standard error is
  positive, and nan when it is not.
\<close>

lemma statistics_maxima:
  assumes "control \<noteq> []" "experimental \<noteq> []" "statistics control experimental = Inr l"
  shows "\<exists>ye yc. np_amax (y_experimental l) = Inr ye \<and> np_amax (y_control l) = Inr yc
    \<and> (ye = NaN \<or> (\<exists>u. ye = Fin u))
    \<and> ((\<exists>s. population_std l = Fin s \<and> 0 < s) \<longrightarrow> (\<exists>w. yc = Fin w))
    \<and> (\<not> fgt (population_std l) (Fin 0) \<longrightarrow> yc = NaN)"
proof -
  from statistics_nonempty [OF assms(1,2)] assms(3) have
    cvr: "control_cvr l = Fin (rate control)" "experimental_cvr l = Fin (rate experimental)"
    and std: "population_std l = np_sqrt (Fin ((1 / real (length control) + 1 / real (length experimental)) * rate control * (1 - rate control)))"
             "experimental_std l = np_sqrt (Fin (1 / real (length experimental) * rate experimental * (1 - rate experimental)))"
    and x: "x_control l = linspace (fsub (control_cvr l) (fmul (Fin 4) (population_std l)))
              (fadd (control_cvr l) (fmul (Fin 4) (population_std l))) 1000"
           "x_experimental l = linspace (fsub (experimental_cvr l) (fmul (Fin 4) (experimental_std l)))
              (fadd (experimental_cvr l) (fmul (Fin 4) (experimental_std l))) 1000"
    and y: "y_control l = map (norm_pdf (control_cvr l) (population_std l)) (x_control l)"
           "y_experimental l = map (norm_pdf (experimental_cvr l) (experimental_std l)) (x_experimental l)"
    by auto
  have sc: "population_std l = NaN \<or> (\<exists>s. population_std l = Fin s)"
    unfolding std by (rule np_sqrt_Fin_cases)
  have se: "experimental_std l = NaN \<or> (\<exists>s. experimental_std l = Fin s)"
    unfolding std by (rule np_sqrt_Fin_cases)
  from np_amax_density [OF sc, of "rate control"] obtain yc where
    "np_amax (y_control l) = Inr yc"
    "(\<exists>s. population_std l = Fin s \<and> 0 < s) \<longrightarrow> (\<exists>w. yc = Fin w)"
    "\<not> fgt (population_std l) (Fin 0) \<longrightarrow> yc = NaN"
    unfolding y(1) x(1) cvr by blast
  moreover from np_amax_density [OF se, of "rate experimental"] obtain ye where
    "np_amax (y_experimental l) = Inr ye" "ye = NaN \<or> (\<exists>u. ye = Fin u)"
    unfolding y(2) x(2) cvr by blast
  ultimately show ?thesis by blast
qed


section \<open>Lemmas on the whole function\<close>

lemma plot_empty:
  "arrays st control = [] \<or> arrays st experimental = [] \<Longrightarrow>
   plot_cvr_distributions ndtri control experimental alpha tails st = (Inl ZeroDivisionError, st)"
  by (simp add: plot_cvr_distributions_def py_bind_def lift_def statistics_empty)

lemma plot_render:
  "statistics (arrays st control) (arrays st experimental) = Inr l \<Longrightarrow>
   plot_cvr_distributions ndtri control experimental alpha tails st = render ndtri l alpha tails st"
  by (simp add: plot_cvr_distributions_def py_bind_def lift_def)

lemma plot_emits:
  "\<exists>r cs. \<forall>st. arrays st control = c \<and> arrays st experimental = e \<longrightarrow>
     plot_cvr_distributions ndtri control experimental alpha tails st
       = (r, st\<lparr>pyplot := pyplot st @ cs\<rparr>)"
proof -
  have "effect (py_bind (lift (statistics c e)) (\<lambda>l. render ndtri l alpha tails))"
    by (intro effect_bind effect_lift effect_render)
  then obtain r cs where
    "emits (py_bind (lift (statistics c e)) (\<lambda>l. render ndtri l alpha tails)) r cs"
    unfolding effect_def by blast
  then have "\<forall>st. arrays st control = c \<and> arrays st experimental = e \<longrightarrow>
     plot_cvr_distributions ndtri control experimental alpha tails st
       = (r, st\<lparr>pyplot := pyplot st @ cs\<rparr>)"
    by (simp add: emits_def plot_cvr_distributions_def)
  then show ?thesis by blast
qed

lemma issued_append: "issued st (st\<lparr>pyplot := pyplot st @ cs\<rparr>) = cs"
  by (simp add: issued_def)

lemma plot_arrays:
  "arrays (snd (plot_cvr_distributions ndtri control experimental alpha tails st)) = arrays st"
proof -
  from plot_emits [of control "arrays st control" experimental "arrays st experimental" ndtri alpha tails]
  obtain r cs where
    "plot_cvr_distributions ndtri control experimental alpha tails st = (r, st\<lparr>pyplot := pyplot st @ cs\<rparr>)"
    by blast
  then show ?thesis by simp
qed

lemma plot_same_statistics:
  assumes "statistics (arrays st control) (arrays st experimental)
             = statistics (arrays st' control') (arrays st' experimental')"
  shows "fst (plot_cvr_distributions ndtri control experimental alpha tails st)
           = fst (plot_cvr_distributions ndtri control' experimental' alpha tails st')
       \<and> issued st (snd (plot_cvr_distributions ndtri control experimental alpha tails st))
           = issued st' (snd (plot_cvr_distributions ndtri control' experimental' alpha tails st'))"
proof -
  have "effect (py_bind (lift (statistics (arrays st control) (arrays st experimental)))
                  (\<lambda>l. render ndtri l alpha tails))"
    by (intro effect_bind effect_lift effect_render)
  then obtain r cs where
    e: "emits (py_bind (lift (statistics (arrays st control) (arrays st experimental)))
                 (\<lambda>l. render ndtri l alpha tails)) r cs"
    unfolding effect_def by blast
  have "plot_cvr_distributions ndtri control experimental alpha tails st
          = (r, st\<lparr>pyplot := pyplot st @ cs\<rparr>)"
    using e by (simp add: emits_def plot_cvr_distributions_def)
  moreover have "plot_cvr_distributions ndtri control' experimental' alpha tails st'
          = (r, st'\<lparr>pyplot := pyplot st' @ cs\<rparr>)"
    using e assms by (simp add: emits_def plot_cvr_distributions_def)
  ultimately show ?thesis by (simp add: issued_append)
qed

lemma norm_ppf_positive:
  assumes "0 < s"
  shows "norm_ppf ndtri (Fin r) (Fin s) q =
    (if q = 0 then NInf else if q = 1 then PInf
     else if 0 < q \<and> q < 1 then Fin (ndtri q * s + r) else NaN)"
  using assms by (simp add: norm_ppf_def fgt_def)

lemma norm_ppf_degenerate: "\<not> fgt scale (Fin 0) \<Longrightarrow> norm_ppf ndtri loc scale q = NaN"
  by (simp add: norm_ppf_def)

lemma positive_std:
  assumes "control \<noteq> []" "experimental \<noteq> []" "statistics control experimental = Inr l"
      and "0 < rate control" "rate control < 1"
  shows "\<exists>s. 0 < s \<and> population_std l = Fin s"
proof -
  let ?k = "1 / real (length control) + 1 / real (length experimental)"
  from statistics_nonempty [OF assms(1,2)] assms(3) have
    std: "population_std l = np_sqrt (Fin (?k * rate control * (1 - rate control)))"
    by auto
  from assms(1) have "0 < ?k" by (simp add: add_pos_nonneg)
  with assms(4,5) have v: "0 < ?k * rate control * (1 - rate control)"
    by (intro mult_pos_pos) linarith+
  then have "\<not> ?k * rate control * (1 - rate control) < 0" by linarith
  then have "population_std l = Fin (sqrt (?k * rate control * (1 - rate control)))"
    unfolding std by (simp only: np_sqrt.simps if_False)
  moreover from v have "0 < sqrt (?k * rate control * (1 - rate control))"
    by (simp only: real_sqrt_gt_zero)
  ultimately show ?thesis by blast
qed

lemma plot_run:
  assumes "arrays st control \<noteq> []" and "arrays st experimental \<noteq> []"
      and "statistics (arrays st control) (arrays st experimental) = Inr l"
  shows "(fst (plot_cvr_distributions ndtri control experimental alpha tails st) = Inr ()
          \<or> fst (plot_cvr_distributions ndtri control experimental alpha tails st) = Inl ValueError)
    \<and> vlines_at (issued st (snd (plot_cvr_distributions ndtri control experimental alpha tails st)))
        = (if tails = 2 then
             [norm_ppf ndtri (control_cvr l) (population_std l) (1 - alpha / 2),
              norm_ppf ndtri (control_cvr l) (population_std l) (alpha / 2)]
           else
             [norm_ppf ndtri (control_cvr l) (population_std l) (1 - alpha)])
          @ (if fst (plot_cvr_distributions ndtri control experimental alpha tails st) = Inr ()
             then [experimental_cvr l, control_cvr l] else [])
    \<and> shaded (issued st (snd (plot_cvr_distributions ndtri control experimental alpha tails st)))
        = (if tails = 2 then
             [map (\<lambda>x. fge x (norm_ppf ndtri (control_cvr l) (population_std l) (1 - alpha / 2)))
                (x_control l),
              map (\<lambda>x. fle x (norm_ppf ndtri (control_cvr l) (population_std l) (alpha / 2)))
                (x_control l)]
           else
             [map (\<lambda>x. fge x (norm_ppf ndtri (control_cvr l) (population_std l) (1 - alpha)))
                (x_control l)])
    \<and> ((\<exists>s. population_std l = Fin s \<and> 0 < s) \<longrightarrow>
          fst (plot_cvr_distributions ndtri control experimental alpha tails st) = Inr ()
        \<and> last (issued st (snd (plot_cvr_distributions ndtri control experimental alpha tails st)))
            = Show)
    \<and> (\<not> fgt (population_std l) (Fin 0) \<longrightarrow>
          fst (plot_cvr_distributions ndtri control experimental alpha tails st) = Inl ValueError)"
proof -
  note ne = statistics_arrays_nonempty [OF assms]
  then have nx: "x_control l \<noteq> []" "x_experimental l \<noteq> []" by simp_all
  have p: "plot_cvr_distributions ndtri control experimental alpha tails st
        = render ndtri l alpha tails st"
    by (rule plot_render [OF assms(3)])
  from statistics_maxima [OF assms] obtain ye yc where
    ye: "np_amax (y_experimental l) = Inr ye" and yc: "np_amax (y_control l) = Inr yc"
    and fe: "ye = NaN \<or> (\<exists>u. ye = Fin u)"
    and pos: "(\<exists>s. population_std l = Fin s \<and> 0 < s) \<longrightarrow> (\<exists>w. yc = Fin w)"
    and deg: "\<not> fgt (population_std l) (Fin 0) \<longrightarrow> yc = NaN"
    by blast
  define ok where "ok \<longleftrightarrow> is_finite (fmul (if fgt ye yc then ye else yc) (Fin (- 0.1)))
        \<and> is_finite (fmul (if fgt ye yc then ye else yc) (Fin 1.1))"
  have r: "fst (render ndtri l alpha tails st) = (if ok then Inr () else Inl ValueError)"
    unfolding ok_def by (rule render_result [OF nx ye yc])
  then have ok: "ok \<longleftrightarrow> fst (render ndtri l alpha tails st) = Inr ()" by simp
  have v: "vlines_at (issued st (snd (render ndtri l alpha tails st))) =
    (if tails = 2 then
       [norm_ppf ndtri (control_cvr l) (population_std l) (1 - alpha / 2),
        norm_ppf ndtri (control_cvr l) (population_std l) (alpha / 2)]
     else
       [norm_ppf ndtri (control_cvr l) (population_std l) (1 - alpha)])
    @ (if fst (render ndtri l alpha tails st) = Inr ()
       then [experimental_cvr l, control_cvr l] else [])"
    unfolding ok [symmetric] ok_def by (rule render_vlines [OF nx ye yc])
  note s = render_shaded [OF nx ye yc, of st ndtri alpha tails]
  have a: "fst (render ndtri l alpha tails st) = Inr ()
      \<and> last (issued st (snd (render ndtri l alpha tails st))) = Show"
    if "\<exists>s. population_std l = Fin s \<and> 0 < s"
  proof -
    from pos that obtain w where w: "yc = Fin w" by blast
    from limits_finite [OF w fe] have f: "is_finite (fmul (if fgt ye yc then ye else yc) (Fin (- 0.1)))"
      "is_finite (fmul (if fgt ye yc then ye else yc) (Fin 1.1))" by simp_all
    then have "ok" by (simp add: ok_def)
    with r render_last [OF nx ye yc f] show ?thesis by simp
  qed
  have b: "fst (render ndtri l alpha tails st) = Inl ValueError"
    if "\<not> fgt (population_std l) (Fin 0)"
  proof -
    from deg that have "yc = NaN" by blast
    then have "\<not> ok" by (simp add: ok_def fgt_def)
    with r show ?thesis by simp
  qed
  from r have "fst (render ndtri l alpha tails st) = Inr ()
          \<or> fst (render ndtri l alpha tails st) = Inl ValueError" by simp
  with v s a b show ?thesis unfolding p by blast
qed

lemma example_statistics:
  "\<exists>l. statistics [1, 0, 1, 0] [1, 1, 1, 0] = Inr l
     \<and> control_cvr l = Fin (1 / 2) \<and> experimental_cvr l = Fin (3 / 4)
     \<and> population_std l = Fin (sqrt (1 / 8)) \<and> experimental_std l = Fin (sqrt (3 / 64))"
  using statistics_nonempty [of "[1, 0, 1, 0]" "[1, 1, 1, 0]"] by auto

section \<open>Empty samples\<close>

text \<open>
  C1, amended. A call in which the control sample or the experimental sample is empty
  raises \<open>ZeroDivisionError\<close>: line 31 divides 1 by the sample's length. It does so
  before any plotting call: the state it leaves is the state it started in, with no call
  added to matplotlib's record.
\<close>

theorem empty_sample_raises_ZeroDivisionError:
  "arrays st control = [] \<or> arrays st experimental = [] \<Longrightarrow>
   plot_cvr_distributions ndtri control experimental alpha tails st = (Inl ZeroDivisionError, st)"
  by (rule plot_empty)

theorem empty_sample_raises_ZeroDivisionError_witness:
  "(arrays (sample_state [] [1, 0]) 0 = [] \<or> arrays (sample_state [] [1, 0]) 1 = [])
   \<and> plot_cvr_distributions ndtri_logistic 0 1 (5 / 100) 2 (sample_state [] [1, 0])
       = (Inl ZeroDivisionError, sample_state [] [1, 0])"
proof -
  have h: "arrays (sample_state [] [1, 0]) 0 = [] \<or> arrays (sample_state [] [1, 0]) 1 = []"
    by (simp add: sample_state_def)
  from empty_sample_raises_ZeroDivisionError [OF h] h show ?thesis by simp
qed

text \<open>
  C1 as stated fails: the error of a call with an empty control sample, and of one with
  an empty experimental sample, is \<open>ZeroDivisionError\<close> and not \<open>EmptySampleError\<close>.
\<close>

theorem empty_sample_not_EmptySampleError_counterexample:
  "plot_cvr_distributions ndtri_logistic 0 1 (5 / 100) 2 (sample_state [] [1, 0])
     = (Inl ZeroDivisionError, sample_state [] [1, 0])
   \<and> plot_cvr_distributions ndtri_logistic 0 1 (5 / 100) 2 (sample_state [1, 0] [])
     = (Inl ZeroDivisionError, sample_state [1, 0] [])
   \<and> ZeroDivisionError \<noteq> EmptySampleError"
  by (simp add: plot_empty sample_state_def)

section \<open>The significance level is not validated\<close>

text \<open>
  C2, amended. In a call with two non-empty samples, whatever \<open>alpha\<close> and \<open>tails\<close>
  are, no \<open>DomainError\<close> is raised and the inverse normal CDF is computed without
  failure: \<open>alpha\<close> is not checked, and the boundary lines are drawn at the quantiles of
  the probabilities computed from it as they are. When the control rate is strictly
  between 0 and 1 the pooled standard error is positive, the quantile is minus infinity
  at the probability 0, plus infinity at the probability 1 and nan at a probability
  outside \<open>[0, 1]\<close>, and the call makes all its plotting calls and returns.
\<close>

theorem alpha_not_validated:
  assumes "arrays st control \<noteq> []" and "arrays st experimental \<noteq> []"
  shows "\<exists>l. statistics (arrays st control) (arrays st experimental) = Inr l
    \<and> fst (plot_cvr_distributions ndtri control experimental alpha tails st) \<noteq> Inl DomainError
    \<and> (tails = 2 \<longrightarrow>
         take 2 (vlines_at (issued st
            (snd (plot_cvr_distributions ndtri control experimental alpha tails st))))
           = [norm_ppf ndtri (control_cvr l) (population_std l) (1 - alpha / 2),
              norm_ppf ndtri (control_cvr l) (population_std l) (alpha / 2)])
    \<and> (tails \<noteq> 2 \<longrightarrow>
         take 1 (vlines_at (issued st
            (snd (plot_cvr_distributions ndtri control experimental alpha tails st))))
           = [norm_ppf ndtri (control_cvr l) (population_std l) (1 - alpha)])
    \<and> (0 < rate (arrays st control) \<and> rate (arrays st control) < 1 \<longrightarrow>
         (\<exists>s. 0 < s \<and> population_std l = Fin s
            \<and> (\<forall>q. norm_ppf ndtri (control_cvr l) (population_std l) q =
                  (if q = 0 then NInf else if q = 1 then PInf
                   else if 0 < q \<and> q < 1 then Fin (ndtri q * s + rate (arrays st control))
                   else NaN)))
       \<and> fst (plot_cvr_distributions ndtri control experimental alpha tails st) = Inr ()
       \<and> last (issued st (snd (plot_cvr_distributions ndtri control experimental alpha tails st)))
           = Show)"
proof -
  let ?c = "arrays st control" and ?e = "arrays st experimental"
  let ?run = "plot_cvr_distributions ndtri control experimental alpha tails st"
  from statistics_nonempty [OF assms] obtain l where
    l: "statistics ?c ?e = Inr l" and cvr: "control_cvr l = Fin (rate ?c)" by blast
  note run = plot_run [OF assms l, where ndtri = ndtri and alpha = alpha and tails = tails]
  from run have "fst ?run = Inr () \<or> fst ?run = Inl ValueError" by blast
  then have no: "fst ?run \<noteq> Inl DomainError" by auto
  from run have two: "take 2 (vlines_at (issued st (snd ?run)))
           = [norm_ppf ndtri (control_cvr l) (population_std l) (1 - alpha / 2),
              norm_ppf ndtri (control_cvr l) (population_std l) (alpha / 2)]"
    if "tails = 2" using that by simp
  from run have one: "take 1 (vlines_at (issued st (snd ?run)))
           = [norm_ppf ndtri (control_cvr l) (population_std l) (1 - alpha)]"
    if "tails \<noteq> 2" using that by simp
  have pos: "(\<exists>s. 0 < s \<and> population_std l = Fin s
            \<and> (\<forall>q. norm_ppf ndtri (control_cvr l) (population_std l) q =
                  (if q = 0 then NInf else if q = 1 then PInf
                   else if 0 < q \<and> q < 1 then Fin (ndtri q * s + rate ?c) else NaN)))
       \<and> fst ?run = Inr () \<and> last (issued st (snd ?run)) = Show"
    if "0 < rate ?c \<and> rate ?c < 1"
  proof -
    from positive_std [OF assms l] that obtain s where s: "0 < s" "population_std l = Fin s"
      by blast
    then have "\<exists>s. population_std l = Fin s \<and> 0 < s" by blast
    with run have "fst ?run = Inr ()" "last (issued st (snd ?run)) = Show" by blast+
    moreover have "\<forall>q. norm_ppf ndtri (control_cvr l) (population_std l) q =
                  (if q = 0 then NInf else if q = 1 then PInf
                   else if 0 < q \<and> q < 1 then Fin (ndtri q * s + rate ?c) else NaN)"
      unfolding cvr s(2) using norm_ppf_positive [OF s(1)] by blast
    ultimately show ?thesis using s by blast
  qed
  from l no two one pos show ?thesis by blast
qed

text \<open>
  Instances outside the domain: \<open>alpha = 3\<close> with \<open>tails = 2\<close> asks for the
  probabilities \<open>- 1 / 2\<close> and \<open>3 / 2\<close>, and \<open>alpha = 1\<close> with \<open>tails = 1\<close> for the
  probability 0.
\<close>

theorem alpha_not_validated_witness:
  "arrays (sample_state [1, 0, 1, 0] [1, 1, 1, 0]) 0 \<noteq> []
   \<and> arrays (sample_state [1, 0, 1, 0] [1, 1, 1, 0]) 1 \<noteq> []
   \<and> fst (plot_cvr_distributions ndtri_logistic 0 1 3 2 (sample_state [1, 0, 1, 0] [1, 1, 1, 0]))
       = Inr ()
   \<and> take 2 (vlines_at (issued (sample_state [1, 0, 1, 0] [1, 1, 1, 0])
        (snd (plot_cvr_distributions ndtri_logistic 0 1 3 2
               (sample_state [1, 0, 1, 0] [1, 1, 1, 0])))))
       = [NaN, NaN]
   \<and> fst (plot_cvr_distributions ndtri_logistic 0 1 1 1 (sample_state [1, 0, 1, 0] [1, 1, 1, 0]))
       = Inr ()
   \<and> take 1 (vlines_at (issued (sample_state [1, 0, 1, 0] [1, 1, 1, 0])
        (snd (plot_cvr_distributions ndtri_logistic 0 1 1 1
               (sample_state [1, 0, 1, 0] [1, 1, 1, 0])))))
       = [NInf]"
proof -
  let ?st = "sample_state [1, 0, 1, 0] [1, 1, 1, 0]"
  have c: "arrays ?st 0 = [1, 0, 1, 0]" and e: "arrays ?st 1 = [1, 1, 1, 0]"
    by (simp_all add: sample_state_def)
  have h: "arrays ?st 0 \<noteq> []" "arrays ?st 1 \<noteq> []"
    unfolding c e by simp_all
  have r: "0 < rate (arrays ?st 0) \<and> rate (arrays ?st 0) < 1"
    unfolding c by simp
  from alpha_not_validated [OF h, where tails = 2 and ndtri = ndtri_logistic and alpha = 3] r
  have a: "fst (plot_cvr_distributions ndtri_logistic 0 1 3 2 ?st) = Inr ()
      \<and> take 2 (vlines_at (issued ?st (snd (plot_cvr_distributions ndtri_logistic 0 1 3 2 ?st))))
          = [NaN, NaN]"
    by auto
  from alpha_not_validated [OF h, where tails = 1 and ndtri = ndtri_logistic and alpha = 1] r
  have b: "fst (plot_cvr_distributions ndtri_logistic 0 1 1 1 ?st) = Inr ()
      \<and> take 1 (vlines_at (issued ?st (snd (plot_cvr_distributions ndtri_logistic 0 1 1 1 ?st))))
          = [NInf]"
    by auto
  from h a b show ?thesis by blast
qed

text \<open>
  C2 as stated fails at \<open>alpha = 0\<close>, \<open>tails = 2\<close>, control \<open>[1, 0, 1, 0]\<close> and
  experimental \<open>[1, 1, 1, 0]\<close>: the call returns normally, and the two critical
  boundaries it draws are the quantiles at the probabilities 1 and 0 of the control
  distribution, plus and minus infinity.
\<close>

theorem alpha_zero_no_DomainError_counterexample:
  "fst (plot_cvr_distributions ndtri_logistic 0 1 0 2 (sample_state [1, 0, 1, 0] [1, 1, 1, 0]))
     = Inr ()
   \<and> vlines_at (issued (sample_state [1, 0, 1, 0] [1, 1, 1, 0])
        (snd (plot_cvr_distributions ndtri_logistic 0 1 0 2 (sample_state [1, 0, 1, 0] [1, 1, 1, 0]))))
     = [PInf, NInf, Fin (3 / 4), Fin (1 / 2)]"
proof -
  let ?st = "sample_state [1, 0, 1, 0] [1, 1, 1, 0]"
  have c: "arrays ?st 0 = [1, 0, 1, 0]" and e: "arrays ?st 1 = [1, 1, 1, 0]"
    by (simp_all add: sample_state_def)
  from example_statistics obtain l where
    l: "statistics [1, 0, 1, 0] [1, 1, 1, 0] = Inr l"
    and cvr: "control_cvr l = Fin (1 / 2)" "experimental_cvr l = Fin (3 / 4)"
    and std: "population_std l = Fin (sqrt (1 / 8))" by blast
  have "arrays ?st 0 \<noteq> []" "arrays ?st 1 \<noteq> []"
    and "statistics (arrays ?st 0) (arrays ?st 1) = Inr l"
    unfolding c e by (simp_all add: l)
  note run = plot_run [OF this, where ndtri = ndtri_logistic and alpha = 0 and tails = 2]
  have "\<exists>s. population_std l = Fin s \<and> 0 < s" by (simp add: std)
  with run have ok: "fst (plot_cvr_distributions ndtri_logistic 0 1 0 2 ?st) = Inr ()" by blast
  with run have "vlines_at (issued ?st (snd (plot_cvr_distributions ndtri_logistic 0 1 0 2 ?st)))
      = [norm_ppf ndtri_logistic (control_cvr l) (population_std l) (1 - 0 / 2),
         norm_ppf ndtri_logistic (control_cvr l) (population_std l) (0 / 2),
         experimental_cvr l, control_cvr l]"
    by simp
  then have "vlines_at (issued ?st (snd (plot_cvr_distributions ndtri_logistic 0 1 0 2 ?st)))
      = [PInf, NInf, Fin (3 / 4), Fin (1 / 2)]"
    by (simp add: cvr std norm_ppf_positive)
  with ok show ?thesis by (rule conjI)
qed

section \<open>The standard errors\<close>

text \<open>
  C3. For every pair of non-empty samples the call computes its statistics and draws the
  chart from them; the control rate is the mean of the control sample, and the pooled
  standard error of the control arm is \<^verbatim>\<open>np.sqrt\<close> of
  \<open>(1 / n_c + 1 / n_e) * rate_c * (1 - rate_c)\<close>, with the control rate in the variance
  term. For a sample of zeros and ones that is the real square root.
\<close>

theorem pooled_standard_error:
  assumes "arrays st control \<noteq> []" and "arrays st experimental \<noteq> []"
  shows "\<exists>l. statistics (arrays st control) (arrays st experimental) = Inr l
    \<and> plot_cvr_distributions ndtri control experimental alpha tails st
        = render ndtri l alpha tails st
    \<and> control_cvr l = Fin (rate (arrays st control))
    \<and> population_std l =
        np_sqrt (Fin ((1 / real (length (arrays st control))
                       + 1 / real (length (arrays st experimental)))
                      * rate (arrays st control) * (1 - rate (arrays st control))))
    \<and> (set (arrays st control) \<subseteq> {0, 1} \<longrightarrow>
        population_std l =
          Fin (sqrt ((1 / real (length (arrays st control))
                      + 1 / real (length (arrays st experimental)))
                     * rate (arrays st control) * (1 - rate (arrays st control)))))"
proof -
  let ?c = "arrays st control" and ?e = "arrays st experimental"
  from statistics_nonempty [OF assms] obtain l where
    l: "statistics ?c ?e = Inr l"
    and cvr: "control_cvr l = Fin (rate ?c)"
    and std: "population_std l =
        np_sqrt (Fin ((1 / real (length ?c) + 1 / real (length ?e)) * rate ?c * (1 - rate ?c)))"
    by blast
  have p: "plot_cvr_distributions ndtri control experimental alpha tails st
        = render ndtri l alpha tails st"
    by (rule plot_render [OF l])
  have "population_std l =
          Fin (sqrt ((1 / real (length ?c) + 1 / real (length ?e)) * rate ?c * (1 - rate ?c)))"
    if b: "set ?c \<subseteq> {0, 1}"
  proof -
    from binary_rate_bounds [OF b] have "0 \<le> rate ?c" "rate ?c \<le> 1" by simp_all
    moreover have "0 \<le> 1 / real (length ?c) + 1 / real (length ?e)" by simp
    ultimately have "0 \<le> (1 / real (length ?c) + 1 / real (length ?e)) * rate ?c * (1 - rate ?c)"
      by (rule variance_nonneg [rotated])
    with std show ?thesis by (simp only: np_sqrt_nonneg)
  qed
  with l p cvr std show ?thesis by blast
qed

theorem pooled_standard_error_witness:
  "arrays (sample_state [1, 0, 1, 0] [1, 1, 1, 0]) 0 \<noteq> []
   \<and> arrays (sample_state [1, 0, 1, 0] [1, 1, 1, 0]) 1 \<noteq> []
   \<and> set (arrays (sample_state [1, 0, 1, 0] [1, 1, 1, 0]) 0) \<subseteq> {0, 1}
   \<and> (\<exists>l. statistics [1, 0, 1, 0] [1, 1, 1, 0] = Inr l
        \<and> control_cvr l = Fin (1 / 2) \<and> population_std l = Fin (sqrt (1 / 8)))"
proof -
  let ?st = "sample_state [1, 0, 1, 0] [1, 1, 1, 0]"
  have c: "arrays ?st 0 = [1, 0, 1, 0]" and e: "arrays ?st 1 = [1, 1, 1, 0]"
    by (simp_all add: sample_state_def)
  have h: "arrays ?st 0 \<noteq> []" "arrays ?st 1 \<noteq> []"
    and b: "set (arrays ?st 0) \<subseteq> {0, 1}"
    unfolding c e by simp_all
  from pooled_standard_error [OF h, of ndtri_logistic "5 / 100" 2] b
  have "\<exists>l. statistics [1, 0, 1, 0] [1, 1, 1, 0] = Inr l
        \<and> control_cvr l = Fin (1 / 2) \<and> population_std l = Fin (sqrt (1 / 8))"
    unfolding c e by auto
  with h b show ?thesis by blast
qed

text \<open>
  C4. For every pair of non-empty samples the standard error of the experimental arm is
  \<^verbatim>\<open>np.sqrt\<close> of \<open>(1 / n_e) * rate_e * (1 - rate_e)\<close>: the experimental sample's own
  mean and its own length, and nothing of the control sample. For a sample of zeros and
  ones that is the real square root.
\<close>

theorem experimental_standard_error:
  assumes "arrays st control \<noteq> []" and "arrays st experimental \<noteq> []"
  shows "\<exists>l. statistics (arrays st control) (arrays st experimental) = Inr l
    \<and> plot_cvr_distributions ndtri control experimental alpha tails st
        = render ndtri l alpha tails st
    \<and> experimental_cvr l = Fin (rate (arrays st experimental))
    \<and> experimental_std l =
        np_sqrt (Fin (1 / real (length (arrays st experimental))
                      * rate (arrays st experimental) * (1 - rate (arrays st experimental))))
    \<and> (set (arrays st experimental) \<subseteq> {0, 1} \<longrightarrow>
        experimental_std l =
          Fin (sqrt (1 / real (length (arrays st experimental))
                     * rate (arrays st experimental) * (1 - rate (arrays st experimental)))))"
proof -
  let ?c = "arrays st control" and ?e = "arrays st experimental"
  from statistics_nonempty [OF assms] obtain l where
    l: "statistics ?c ?e = Inr l"
    and cvr: "experimental_cvr l = Fin (rate ?e)"
    and std: "experimental_std l =
        np_sqrt (Fin (1 / real (length ?e) * rate ?e * (1 - rate ?e)))"
    by blast
  have p: "plot_cvr_distributions ndtri control experimental alpha tails st
        = render ndtri l alpha tails st"
    by (rule plot_render [OF l])
  have "experimental_std l = Fin (sqrt (1 / real (length ?e) * rate ?e * (1 - rate ?e)))"
    if b: "set ?e \<subseteq> {0, 1}"
  proof -
    from binary_rate_bounds [OF b] have "0 \<le> rate ?e" "rate ?e \<le> 1" by simp_all
    moreover have "0 \<le> 1 / real (length ?e)" by simp
    ultimately have "0 \<le> 1 / real (length ?e) * rate ?e * (1 - rate ?e)"
      by (rule variance_nonneg [rotated])
    with std show ?thesis by (simp only: np_sqrt_nonneg)
  qed
  with l p cvr std show ?thesis by blast
qed

theorem experimental_standard_error_witness:
  "arrays (sample_state [1, 0, 1, 0] [1, 1, 1, 0]) 0 \<noteq> []
   \<and> arrays (sample_state [1, 0, 1, 0] [1, 1, 1, 0]) 1 \<noteq> []
   \<and> set (arrays (sample_state [1, 0, 1, 0] [1, 1, 1, 0]) 1) \<subseteq> {0, 1}
   \<and> (\<exists>l. statistics [1, 0, 1, 0] [1, 1, 1, 0] = Inr l
        \<and> experimental_cvr l = Fin (3 / 4) \<and> experimental_std l = Fin (sqrt (3 / 64)))"
proof -
  let ?st = "sample_state [1, 0, 1, 0] [1, 1, 1, 0]"
  have c: "arrays ?st 0 = [1, 0, 1, 0]" and e: "arrays ?st 1 = [1, 1, 1, 0]"
    by (simp_all add: sample_state_def)
  have h: "arrays ?st 0 \<noteq> []" "arrays ?st 1 \<noteq> []"
    and b: "set (arrays ?st 1) \<subseteq> {0, 1}"
    unfolding c e by simp_all
  from experimental_standard_error [OF h, of ndtri_logistic "5 / 100" 2] b
  have "\<exists>l. statistics [1, 0, 1, 0] [1, 1, 1, 0] = Inr l
        \<and> experimental_cvr l = Fin (3 / 4) \<and> experimental_std l = Fin (sqrt (3 / 64))"
    unfolding c e by auto
  with h b show ?thesis by blast
qed

section \<open>The critical values\<close>

text \<open>
  C5. In a call with non-empty samples, the vertical lines drawn are, in order, the
  critical boundaries and, when the call returns, the two observed rates after them; the
  shaded regions are the points of the control curve at or beyond the boundaries. The
  boundaries are quantiles of the control distribution, with the control rate and the
  pooled standard error: at \<open>1 - alpha / 2\<close> and at \<open>alpha / 2\<close> when \<open>tails = 2\<close>, and
  the single one at \<open>1 - alpha\<close> for every other value of \<open>tails\<close>. (The call returns
  unless line 94 raises \<open>ValueError\<close>, which is after the boundaries are drawn.)
\<close>

theorem critical_values_on_control_distribution:
  assumes "arrays st control \<noteq> []" and "arrays st experimental \<noteq> []"
  shows "\<exists>l. statistics (arrays st control) (arrays st experimental) = Inr l
    \<and> (fst (plot_cvr_distributions ndtri control experimental alpha tails st) = Inr ()
        \<or> fst (plot_cvr_distributions ndtri control experimental alpha tails st) = Inl ValueError)
    \<and> (tails = 2 \<longrightarrow>
         vlines_at (issued st (snd (plot_cvr_distributions ndtri control experimental alpha tails st)))
           = [norm_ppf ndtri (control_cvr l) (population_std l) (1 - alpha / 2),
              norm_ppf ndtri (control_cvr l) (population_std l) (alpha / 2)]
             @ (if fst (plot_cvr_distributions ndtri control experimental alpha tails st) = Inr ()
                then [experimental_cvr l, control_cvr l] else [])
       \<and> shaded (issued st (snd (plot_cvr_distributions ndtri control experimental alpha tails st)))
           = [map (\<lambda>x. fge x (norm_ppf ndtri (control_cvr l) (population_std l) (1 - alpha / 2)))
                (x_control l),
              map (\<lambda>x. fle x (norm_ppf ndtri (control_cvr l) (population_std l) (alpha / 2)))
                (x_control l)])
    \<and> (tails \<noteq> 2 \<longrightarrow>
         vlines_at (issued st (snd (plot_cvr_distributions ndtri control experimental alpha tails st)))
           = [norm_ppf ndtri (control_cvr l) (population_std l) (1 - alpha)]
             @ (if fst (plot_cvr_distributions ndtri control experimental alpha tails st) = Inr ()
                then [experimental_cvr l, control_cvr l] else [])
       \<and> shaded (issued st (snd (plot_cvr_distributions ndtri control experimental alpha tails st)))
           = [map (\<lambda>x. fge x (norm_ppf ndtri (control_cvr l) (population_std l) (1 - alpha)))
                (x_control l)])"
proof -
  from statistics_nonempty [OF assms] obtain l where
    l: "statistics (arrays st control) (arrays st experimental) = Inr l" by blast
  note run = plot_run [OF assms l, where ndtri = ndtri and alpha = alpha and tails = tails]
  show ?thesis
  proof (cases "tails = 2")
    case True
    with run l show ?thesis by (intro exI [of _ l]) simp
  next
    case False
    with run l show ?thesis by (intro exI [of _ l]) simp
  qed
qed

text \<open>
  Instances: control \<open>[1, 0, 1, 0]\<close> and experimental \<open>[1, 1, 1, 0]\<close> with \<open>tails = 2\<close>
  and with \<open>tails = 7\<close>, where the call returns; and the constant control sample
  \<open>[0, 0, 0]\<close>, where the pooled standard error is 0, both boundaries are nan and line
  94 raises.
\<close>

theorem critical_values_on_control_distribution_witness:
  "arrays (sample_state [1, 0, 1, 0] [1, 1, 1, 0]) 0 \<noteq> []
   \<and> arrays (sample_state [1, 0, 1, 0] [1, 1, 1, 0]) 1 \<noteq> []
   \<and> vlines_at (issued (sample_state [1, 0, 1, 0] [1, 1, 1, 0])
        (snd (plot_cvr_distributions ndtri_logistic 0 1 (5 / 100) 2
               (sample_state [1, 0, 1, 0] [1, 1, 1, 0]))))
       = [norm_ppf ndtri_logistic (Fin (1 / 2)) (Fin (sqrt (1 / 8))) (1 - (5 / 100) / 2),
          norm_ppf ndtri_logistic (Fin (1 / 2)) (Fin (sqrt (1 / 8))) ((5 / 100) / 2),
          Fin (3 / 4), Fin (1 / 2)]
   \<and> (7 :: int) \<noteq> 2
   \<and> vlines_at (issued (sample_state [1, 0, 1, 0] [1, 1, 1, 0])
        (snd (plot_cvr_distributions ndtri_logistic 0 1 (5 / 100) 7
               (sample_state [1, 0, 1, 0] [1, 1, 1, 0]))))
       = [norm_ppf ndtri_logistic (Fin (1 / 2)) (Fin (sqrt (1 / 8))) (1 - 5 / 100),
          Fin (3 / 4), Fin (1 / 2)]
   \<and> fst (plot_cvr_distributions ndtri_logistic 0 1 (5 / 100) 2 (sample_state [0, 0, 0] [1, 1]))
       = Inl ValueError
   \<and> vlines_at (issued (sample_state [0, 0, 0] [1, 1])
        (snd (plot_cvr_distributions ndtri_logistic 0 1 (5 / 100) 2 (sample_state [0, 0, 0] [1, 1]))))
       = [NaN, NaN]"
proof -
  let ?st = "sample_state [1, 0, 1, 0] [1, 1, 1, 0]"
  let ?dg = "sample_state [0, 0, 0] [1, 1]"
  have arr: "arrays (sample_state c e) 0 = c" "arrays (sample_state c e) 1 = e" for c e
    by (simp_all add: sample_state_def)
  have h: "arrays ?st 0 \<noteq> []" "arrays ?st 1 \<noteq> []"
    and h0: "arrays ?dg 0 \<noteq> []" "arrays ?dg 1 \<noteq> []"
    unfolding arr by simp_all
  from example_statistics obtain l where
    l: "statistics [1, 0, 1, 0] [1, 1, 1, 0] = Inr l"
    and v: "control_cvr l = Fin (1 / 2)" "experimental_cvr l = Fin (3 / 4)"
           "population_std l = Fin (sqrt (1 / 8))" by blast
  have sl: "statistics (arrays ?st 0) (arrays ?st 1) = Inr l" unfolding arr by (rule l)
  have pos: "\<exists>s. population_std l = Fin s \<and> 0 < s" by (simp add: v)
  have ok2: "fst (plot_cvr_distributions ndtri_logistic 0 1 (5 / 100) 2 ?st) = Inr ()"
    using plot_run [OF h sl, where ndtri = ndtri_logistic and alpha = "5 / 100" and tails = 2] pos
    by blast
  have ok7: "fst (plot_cvr_distributions ndtri_logistic 0 1 (5 / 100) 7 ?st) = Inr ()"
    using plot_run [OF h sl, where ndtri = ndtri_logistic and alpha = "5 / 100" and tails = 7] pos
    by blast
  from critical_values_on_control_distribution
         [OF h, where tails = 2 and ndtri = ndtri_logistic and alpha = "5 / 100"] sl ok2
  have two: "vlines_at (issued ?st (snd (plot_cvr_distributions ndtri_logistic 0 1 (5 / 100) 2 ?st)))
       = [norm_ppf ndtri_logistic (control_cvr l) (population_std l) (1 - (5 / 100) / 2),
          norm_ppf ndtri_logistic (control_cvr l) (population_std l) ((5 / 100) / 2),
          experimental_cvr l, control_cvr l]"
    by auto
  from critical_values_on_control_distribution
         [OF h, where tails = 7 and ndtri = ndtri_logistic and alpha = "5 / 100"] sl ok7
  have one: "vlines_at (issued ?st (snd (plot_cvr_distributions ndtri_logistic 0 1 (5 / 100) 7 ?st)))
       = [norm_ppf ndtri_logistic (control_cvr l) (population_std l) (1 - 5 / 100),
          experimental_cvr l, control_cvr l]"
    by auto
  from statistics_nonempty [of "[0, 0, 0]" "[1, 1]"] obtain l0 where
    l0: "statistics [0, 0, 0] [1, 1] = Inr l0" and s0: "population_std l0 = Fin 0"
    by auto
  have sl0: "statistics (arrays ?dg 0) (arrays ?dg 1) = Inr l0" unfolding arr by (rule l0)
  have deg: "\<not> fgt (population_std l0) (Fin 0)" by (simp add: s0 fgt_def)
  have bad: "fst (plot_cvr_distributions ndtri_logistic 0 1 (5 / 100) 2 ?dg) = Inl ValueError"
    using plot_run [OF h0 sl0, where ndtri = ndtri_logistic and alpha = "5 / 100" and tails = 2] deg
    by blast
  from critical_values_on_control_distribution
         [OF h0, where tails = 2 and ndtri = ndtri_logistic and alpha = "5 / 100"] sl0 bad
  have "vlines_at (issued ?dg (snd (plot_cvr_distributions ndtri_logistic 0 1 (5 / 100) 2 ?dg)))
       = [norm_ppf ndtri_logistic (control_cvr l0) (population_std l0) (1 - (5 / 100) / 2),
          norm_ppf ndtri_logistic (control_cvr l0) (population_std l0) ((5 / 100) / 2)]"
    by auto
  then have zero: "vlines_at (issued ?dg (snd (plot_cvr_distributions ndtri_logistic 0 1 (5 / 100) 2 ?dg)))
       = [NaN, NaN]"
    by (simp only: norm_ppf_degenerate [OF deg])
  from two one h bad zero show ?thesis unfolding v by simp
qed

section \<open>Constant samples\<close>

text \<open>
  C6. In a call with non-empty samples, a control sample whose entries are all 0, or all
  1, has the rate 0, or 1, and the pooled standard error 0; an experimental sample whose
  entries are all 0, or all 1, has the rate 0, or 1, and the experimental standard
  error 0. (The standard errors are computed only when both samples are non-empty.)
\<close>

theorem constant_sample_rate_and_error:
  assumes "arrays st control \<noteq> []" and "arrays st experimental \<noteq> []"
      and "b_c = 0 \<or> b_c = 1" and "b_e = 0 \<or> b_e = 1"
  shows "\<exists>l. statistics (arrays st control) (arrays st experimental) = Inr l
    \<and> plot_cvr_distributions ndtri control experimental alpha tails st
        = render ndtri l alpha tails st
    \<and> ((\<forall>x\<in>set (arrays st control). x = b_c) \<longrightarrow>
         control_cvr l = Fin (real_of_int b_c) \<and> population_std l = Fin 0)
    \<and> ((\<forall>x\<in>set (arrays st experimental). x = b_e) \<longrightarrow>
         experimental_cvr l = Fin (real_of_int b_e) \<and> experimental_std l = Fin 0)"
proof -
  let ?c = "arrays st control" and ?e = "arrays st experimental"
  from statistics_nonempty [OF assms(1,2)] obtain l where
    l: "statistics ?c ?e = Inr l"
    and cvr: "control_cvr l = Fin (rate ?c)" "experimental_cvr l = Fin (rate ?e)"
    and std: "population_std l =
                np_sqrt (Fin ((1 / real (length ?c) + 1 / real (length ?e)) * rate ?c * (1 - rate ?c)))"
             "experimental_std l =
                np_sqrt (Fin (1 / real (length ?e) * rate ?e * (1 - rate ?e)))"
    by blast
  have p: "plot_cvr_distributions ndtri control experimental alpha tails st
        = render ndtri l alpha tails st"
    by (rule plot_render [OF l])
  have "control_cvr l = Fin (real_of_int b_c) \<and> population_std l = Fin 0"
    if "\<forall>x\<in>set ?c. x = b_c"
  proof -
    from constant_rate [OF assms(1) that] have r: "rate ?c = real_of_int b_c" .
    from assms(3) have z: "real_of_int b_c * (1 - real_of_int b_c) = 0" by auto
    have "(1 / real (length ?c) + 1 / real (length ?e)) * rate ?c * (1 - rate ?c)
            = (1 / real (length ?c) + 1 / real (length ?e))
              * (real_of_int b_c * (1 - real_of_int b_c))"
      by (simp only: r mult.assoc)
    also have "\<dots> = 0" by (simp only: z mult_zero_right)
    finally have "population_std l = np_sqrt (Fin 0)" using std(1) by (simp only:)
    then have "population_std l = Fin 0" by simp
    moreover from cvr(1) have "control_cvr l = Fin (real_of_int b_c)" by (simp only: r)
    ultimately show ?thesis by (rule conjI [rotated])
  qed
  moreover have "experimental_cvr l = Fin (real_of_int b_e) \<and> experimental_std l = Fin 0"
    if "\<forall>x\<in>set ?e. x = b_e"
  proof -
    from constant_rate [OF assms(2) that] have r: "rate ?e = real_of_int b_e" .
    from assms(4) have z: "real_of_int b_e * (1 - real_of_int b_e) = 0" by auto
    have "1 / real (length ?e) * rate ?e * (1 - rate ?e)
            = 1 / real (length ?e) * (real_of_int b_e * (1 - real_of_int b_e))"
      by (simp only: r mult.assoc)
    also have "\<dots> = 0" by (simp only: z mult_zero_right)
    finally have "experimental_std l = np_sqrt (Fin 0)" using std(2) by (simp only:)
    then have "experimental_std l = Fin 0" by simp
    moreover from cvr(2) have "experimental_cvr l = Fin (real_of_int b_e)" by (simp only: r)
    ultimately show ?thesis by (rule conjI [rotated])
  qed
  ultimately show ?thesis using l p by blast
qed

theorem constant_sample_rate_and_error_witness:
  "arrays (sample_state [0, 0, 0] [1, 1]) 0 \<noteq> []
   \<and> arrays (sample_state [0, 0, 0] [1, 1]) 1 \<noteq> []
   \<and> ((0 :: int) = 0 \<or> (0 :: int) = 1) \<and> ((1 :: int) = 0 \<or> (1 :: int) = 1)
   \<and> set (arrays (sample_state [0, 0, 0] [1, 1]) 0) = {0}
   \<and> set (arrays (sample_state [0, 0, 0] [1, 1]) 1) = {1}
   \<and> (\<exists>l. statistics [0, 0, 0] [1, 1] = Inr l
        \<and> control_cvr l = Fin 0 \<and> population_std l = Fin 0
        \<and> experimental_cvr l = Fin 1 \<and> experimental_std l = Fin 0)"
proof -
  let ?st = "sample_state [0, 0, 0] [1, 1]"
  have c: "arrays ?st 0 = [0, 0, 0]" and e: "arrays ?st 1 = [1, 1]"
    by (simp_all add: sample_state_def)
  have h: "arrays ?st 0 \<noteq> []" "arrays ?st 1 \<noteq> []" "(0 :: int) = 0 \<or> (0 :: int) = 1"
    "(1 :: int) = 0 \<or> (1 :: int) = 1"
    unfolding c e by simp_all
  have a: "\<forall>x\<in>set (arrays ?st 0). x = 0" "\<forall>x\<in>set (arrays ?st 1). x = 1"
    unfolding c e by simp_all
  from constant_sample_rate_and_error [OF h, of ndtri_logistic "5 / 100" 2] a
  have "\<exists>l. statistics [0, 0, 0] [1, 1] = Inr l
        \<and> control_cvr l = Fin 0 \<and> population_std l = Fin 0
        \<and> experimental_cvr l = Fin 1 \<and> experimental_std l = Fin 0"
    unfolding c e by auto
  moreover have "set (arrays ?st 0) = {0}" "set (arrays ?st 1) = {1}"
    unfolding c e by simp_all
  ultimately show ?thesis using h by blast
qed

section \<open>The points of the curves\<close>

text \<open>
  C7. In a call with non-empty samples of zeros and ones, each arm's x values are 1000
  points, from the arm's mean minus 4 standard deviations to its mean plus 4 standard
  deviations, each at the same distance from the one before; the y values are the
  density of the arm's normal distribution at these points, and the two curves plotted
  are these x and y values.
\<close>

theorem density_grid:
  assumes "arrays st control \<noteq> []" and "arrays st experimental \<noteq> []"
      and "set (arrays st control) \<subseteq> {0, 1}" and "set (arrays st experimental) \<subseteq> {0, 1}"
  shows "\<exists>l r_c s_c r_e s_e.
      statistics (arrays st control) (arrays st experimental) = Inr l
    \<and> plot_cvr_distributions ndtri control experimental alpha tails st
        = render ndtri l alpha tails st
    \<and> control_cvr l = Fin r_c \<and> population_std l = Fin s_c
    \<and> experimental_cvr l = Fin r_e \<and> experimental_std l = Fin s_e
    \<and> length (x_control l) = 1000
    \<and> (\<forall>i<1000. x_control l ! i = Fin (r_c - 4 * s_c + real i * (8 * s_c / 999)))
    \<and> x_control l ! 0 = Fin (r_c - 4 * s_c) \<and> x_control l ! 999 = Fin (r_c + 4 * s_c)
    \<and> y_control l = map (norm_pdf (Fin r_c) (Fin s_c)) (x_control l)
    \<and> length (x_experimental l) = 1000
    \<and> (\<forall>i<1000. x_experimental l ! i = Fin (r_e - 4 * s_e + real i * (8 * s_e / 999)))
    \<and> x_experimental l ! 0 = Fin (r_e - 4 * s_e) \<and> x_experimental l ! 999 = Fin (r_e + 4 * s_e)
    \<and> y_experimental l = map (norm_pdf (Fin r_e) (Fin s_e)) (x_experimental l)
    \<and> take 3 (issued st (snd (plot_cvr_distributions ndtri control experimental alpha tails st)))
        = [Subplots, Plot (x_control l) (y_control l) ''control'' ''grey'',
           Plot (x_experimental l) (y_experimental l) ''experimental'' ''green'']"
proof -
  let ?c = "arrays st control" and ?e = "arrays st experimental"
  define v_c where "v_c = (1 / real (length ?c) + 1 / real (length ?e)) * rate ?c * (1 - rate ?c)"
  define v_e where "v_e = 1 / real (length ?e) * rate ?e * (1 - rate ?e)"
  from statistics_nonempty [OF assms(1,2)] obtain l where
    l: "statistics ?c ?e = Inr l"
    and cvr: "control_cvr l = Fin (rate ?c)" "experimental_cvr l = Fin (rate ?e)"
    and std: "population_std l = np_sqrt (Fin v_c)" "experimental_std l = np_sqrt (Fin v_e)"
    and x: "x_control l = linspace (fsub (control_cvr l) (fmul (Fin 4) (population_std l)))
              (fadd (control_cvr l) (fmul (Fin 4) (population_std l))) 1000"
           "x_experimental l = linspace (fsub (experimental_cvr l) (fmul (Fin 4) (experimental_std l)))
              (fadd (experimental_cvr l) (fmul (Fin 4) (experimental_std l))) 1000"
    and y: "y_control l = map (norm_pdf (control_cvr l) (population_std l)) (x_control l)"
           "y_experimental l = map (norm_pdf (experimental_cvr l) (experimental_std l)) (x_experimental l)"
    unfolding v_c_def v_e_def by blast
  from binary_rate_bounds [OF assms(3)] have "0 \<le> v_c"
    unfolding v_c_def by (intro variance_nonneg) simp_all
  with std have sc: "population_std l = Fin (sqrt v_c)" by simp
  from binary_rate_bounds [OF assms(4)] have "0 \<le> v_e"
    unfolding v_e_def by (intro variance_nonneg) simp_all
  with std have se: "experimental_std l = Fin (sqrt v_e)" by simp
  have gc: "\<forall>i<1000. x_control l ! i = Fin (rate ?c - 4 * sqrt v_c + real i * (8 * sqrt v_c / 999))"
    unfolding x cvr sc by (intro allI impI grid_points)
  have ge: "\<forall>i<1000. x_experimental l ! i = Fin (rate ?e - 4 * sqrt v_e + real i * (8 * sqrt v_e / 999))"
    unfolding x cvr se by (intro allI impI grid_points)
  from gc have c0: "x_control l ! 0 = Fin (rate ?c - 4 * sqrt v_c)"
    and c999: "x_control l ! 999 = Fin (rate ?c + 4 * sqrt v_c)" by simp_all
  from ge have e0: "x_experimental l ! 0 = Fin (rate ?e - 4 * sqrt v_e)"
    and e999: "x_experimental l ! 999 = Fin (rate ?e + 4 * sqrt v_e)" by simp_all
  have len: "length (x_control l) = 1000" "length (x_experimental l) = 1000"
    by (simp_all add: x length_linspace)
  have p: "plot_cvr_distributions ndtri control experimental alpha tails st
        = render ndtri l alpha tails st"
    by (rule plot_render [OF l])
  have curves: "take 3 (issued st (snd (plot_cvr_distributions ndtri control experimental alpha tails st)))
        = [Subplots, Plot (x_control l) (y_control l) ''control'' ''grey'',
           Plot (x_experimental l) (y_experimental l) ''experimental'' ''green'']"
    unfolding p using statistics_arrays_nonempty [OF assms(1,2) l] by (intro render_curves) simp_all
  have yc: "y_control l = map (norm_pdf (Fin (rate ?c)) (Fin (sqrt v_c))) (x_control l)"
    using y(1) by (simp only: cvr sc)
  have ye: "y_experimental l = map (norm_pdf (Fin (rate ?e)) (Fin (sqrt v_e))) (x_experimental l)"
    using y(2) by (simp only: cvr se)
  from l p cvr sc se len gc c0 c999 yc ge e0 e999 ye curves show ?thesis by blast
qed

theorem density_grid_witness:
  "arrays (sample_state [1, 0, 1, 0] [1, 1, 1, 0]) 0 \<noteq> []
   \<and> arrays (sample_state [1, 0, 1, 0] [1, 1, 1, 0]) 1 \<noteq> []
   \<and> set (arrays (sample_state [1, 0, 1, 0] [1, 1, 1, 0]) 0) \<subseteq> {0, 1}
   \<and> set (arrays (sample_state [1, 0, 1, 0] [1, 1, 1, 0]) 1) \<subseteq> {0, 1}
   \<and> (\<exists>l. statistics [1, 0, 1, 0] [1, 1, 1, 0] = Inr l
        \<and> length (x_control l) = 1000
        \<and> x_control l ! 0 = Fin (1 / 2 - 4 * sqrt (1 / 8))
        \<and> x_control l ! 999 = Fin (1 / 2 + 4 * sqrt (1 / 8))
        \<and> length (x_experimental l) = 1000
        \<and> x_experimental l ! 0 = Fin (3 / 4 - 4 * sqrt (3 / 64))
        \<and> x_experimental l ! 999 = Fin (3 / 4 + 4 * sqrt (3 / 64)))"
proof -
  let ?st = "sample_state [1, 0, 1, 0] [1, 1, 1, 0]"
  have c: "arrays ?st 0 = [1, 0, 1, 0]" and e: "arrays ?st 1 = [1, 1, 1, 0]"
    by (simp_all add: sample_state_def)
  have h: "arrays ?st 0 \<noteq> []" "arrays ?st 1 \<noteq> []"
    "set (arrays ?st 0) \<subseteq> {0, 1}" "set (arrays ?st 1) \<subseteq> {0, 1}"
    unfolding c e by simp_all
  from density_grid [OF h, of ndtri_logistic "5 / 100" 2] obtain l r_c s_c r_e s_e where
    l: "statistics (arrays ?st 0) (arrays ?st 1) = Inr l"
    and v: "control_cvr l = Fin r_c" "population_std l = Fin s_c"
           "experimental_cvr l = Fin r_e" "experimental_std l = Fin s_e"
    and g: "length (x_control l) = 1000"
           "x_control l ! 0 = Fin (r_c - 4 * s_c)" "x_control l ! 999 = Fin (r_c + 4 * s_c)"
           "length (x_experimental l) = 1000"
           "x_experimental l ! 0 = Fin (r_e - 4 * s_e)" "x_experimental l ! 999 = Fin (r_e + 4 * s_e)"
    by blast
  from example_statistics l v have "r_c = 1 / 2" "s_c = sqrt (1 / 8)" "r_e = 3 / 4" "s_e = sqrt (3 / 64)"
    unfolding c e by auto
  with l g h show ?thesis unfolding c e by blast
qed

section \<open>Determinism\<close>

text \<open>
  C8. Two calls with the same \<open>alpha\<close> and \<open>tails\<close> whose samples have the same
  contents compute the same statistics, end the same way and send the same calls, with
  the same values, to matplotlib, whatever the two states they start in (the second may
  be the state the first has left).
\<close>

theorem deterministic:
  assumes "arrays st control = arrays st' control'"
      and "arrays st experimental = arrays st' experimental'"
  shows "statistics (arrays st control) (arrays st experimental)
           = statistics (arrays st' control') (arrays st' experimental')
       \<and> fst (plot_cvr_distributions ndtri control experimental alpha tails st)
           = fst (plot_cvr_distributions ndtri control' experimental' alpha tails st')
       \<and> issued st (snd (plot_cvr_distributions ndtri control experimental alpha tails st))
           = issued st' (snd (plot_cvr_distributions ndtri control' experimental' alpha tails st'))"
  proof -
  from assms have s: "statistics (arrays st control) (arrays st experimental)
           = statistics (arrays st' control') (arrays st' experimental')"
    by simp
  with plot_same_statistics [OF s] show ?thesis by blast
qed

theorem deterministic_witness:
  "arrays (sample_state [1, 0, 1, 0] [1, 1, 1, 0]) 0
     = arrays (snd (plot_cvr_distributions ndtri_logistic 0 1 (5 / 100) 2
                     (sample_state [1, 0, 1, 0] [1, 1, 1, 0]))) 0
   \<and> arrays (sample_state [1, 0, 1, 0] [1, 1, 1, 0]) 1
     = arrays (snd (plot_cvr_distributions ndtri_logistic 0 1 (5 / 100) 2
                     (sample_state [1, 0, 1, 0] [1, 1, 1, 0]))) 1
   \<and> fst (plot_cvr_distributions ndtri_logistic 0 1 (5 / 100) 2
            (sample_state [1, 0, 1, 0] [1, 1, 1, 0]))
     = fst (plot_cvr_distributions ndtri_logistic 0 1 (5 / 100) 2
              (snd (plot_cvr_distributions ndtri_logistic 0 1 (5 / 100) 2
                     (sample_state [1, 0, 1, 0] [1, 1, 1, 0]))))
   \<and> issued (sample_state [1, 0, 1, 0] [1, 1, 1, 0])
        (snd (plot_cvr_distributions ndtri_logistic 0 1 (5 / 100) 2
               (sample_state [1, 0, 1, 0] [1, 1, 1, 0])))
     = issued (snd (plot_cvr_distributions ndtri_logistic 0 1 (5 / 100) 2
                     (sample_state [1, 0, 1, 0] [1, 1, 1, 0])))
        (snd (plot_cvr_distributions ndtri_logistic 0 1 (5 / 100) 2
               (snd (plot_cvr_distributions ndtri_logistic 0 1 (5 / 100) 2
                      (sample_state [1, 0, 1, 0] [1, 1, 1, 0])))))"
proof -
  let ?st = "sample_state [1, 0, 1, 0] [1, 1, 1, 0]"
  let ?st1 = "snd (plot_cvr_distributions ndtri_logistic 0 1 (5 / 100) 2 ?st)"
  have h: "arrays ?st 0 = arrays ?st1 0" "arrays ?st 1 = arrays ?st1 1"
    by (simp_all only: plot_arrays)
  from deterministic [OF h, of ndtri_logistic "5 / 100" 2] h show ?thesis by blast
qed

section \<open>The samples are read only\<close>

text \<open>
  C9. After a call, whether it returned or raised, every array holds the elements it
  held before, in the same order; the two samples in particular.
\<close>

theorem samples_not_mutated:
  "arrays (snd (plot_cvr_distributions ndtri control experimental alpha tails st)) = arrays st"
  by (rule plot_arrays)

section \<open>Length and sum\<close>

text \<open>
  C10. Two calls with the same \<open>alpha\<close> and \<open>tails\<close> whose control samples have the
  same length and the same sum, and whose experimental samples have the same length and
  the same sum, compute the same statistics, end the same way and send the same calls to
  matplotlib; so do two calls whose samples are permutations of each other. This is for
  samples that numpy adds up exactly (\<open>exact_sum\<close>), as samples of zeros and ones are.
\<close>

theorem depends_on_length_and_sum:
  assumes "exact_sum (arrays st control)" and "exact_sum (arrays st' control')"
      and "exact_sum (arrays st experimental)" and "exact_sum (arrays st' experimental')"
      and "length (arrays st control) = length (arrays st' control')
             \<and> sum_list (arrays st control) = sum_list (arrays st' control')
             \<and> length (arrays st experimental) = length (arrays st' experimental')
             \<and> sum_list (arrays st experimental) = sum_list (arrays st' experimental')
           \<or> mset (arrays st control) = mset (arrays st' control')
             \<and> mset (arrays st experimental) = mset (arrays st' experimental')"
  shows "statistics (arrays st control) (arrays st experimental)
           = statistics (arrays st' control') (arrays st' experimental')
       \<and> fst (plot_cvr_distributions ndtri control experimental alpha tails st)
           = fst (plot_cvr_distributions ndtri control' experimental' alpha tails st')
       \<and> issued st (snd (plot_cvr_distributions ndtri control experimental alpha tails st))
           = issued st' (snd (plot_cvr_distributions ndtri control' experimental' alpha tails st'))"
proof -
  from assms(5) have "length (arrays st control) = length (arrays st' control')
             \<and> sum_list (arrays st control) = sum_list (arrays st' control')
             \<and> length (arrays st experimental) = length (arrays st' experimental')
             \<and> sum_list (arrays st experimental) = sum_list (arrays st' experimental')"
    using mset_length_sum by blast
  then have s: "statistics (arrays st control) (arrays st experimental)
           = statistics (arrays st' control') (arrays st' experimental')"
    by (intro statistics_length_sum) simp_all
  with plot_same_statistics [OF s] show ?thesis by blast
qed

text \<open>
  Instances: samples of zeros and ones that are permutations of each other, and the
  experimental samples \<open>[3, 0]\<close> and \<open>[1, 2]\<close>, of the same length and sum.
\<close>

theorem depends_on_length_and_sum_witness:
  "exact_sum [1, 0, 0, 1] \<and> exact_sum [0, 1, 1, 0] \<and> exact_sum [3, 0] \<and> exact_sum [1, 2]
   \<and> exact_sum [1, 1, 0] \<and> exact_sum [0, 1, 1]
   \<and> statistics [1, 0, 0, 1] [3, 0] = statistics [0, 1, 1, 0] [1, 2]
   \<and> issued (sample_state [1, 0, 0, 1] [3, 0])
        (snd (plot_cvr_distributions ndtri_logistic 0 1 (5 / 100) 2 (sample_state [1, 0, 0, 1] [3, 0])))
     = issued (sample_state [0, 1, 1, 0] [1, 2])
        (snd (plot_cvr_distributions ndtri_logistic 0 1 (5 / 100) 2 (sample_state [0, 1, 1, 0] [1, 2])))
   \<and> mset [1, 0, 0, 1] = mset [0, 1, 1, 0 :: int] \<and> mset [1, 1, 0] = mset [0, 1, 1 :: int]
   \<and> statistics [1, 0, 0, 1] [1, 1, 0] = statistics [0, 1, 1, 0] [0, 1, 1]
   \<and> issued (sample_state [1, 0, 0, 1] [1, 1, 0])
        (snd (plot_cvr_distributions ndtri_logistic 0 1 (5 / 100) 2 (sample_state [1, 0, 0, 1] [1, 1, 0])))
     = issued (sample_state [0, 1, 1, 0] [0, 1, 1])
        (snd (plot_cvr_distributions ndtri_logistic 0 1 (5 / 100) 2 (sample_state [0, 1, 1, 0] [0, 1, 1])))"
proof -
  let ?a = "sample_state [1, 0, 0, 1] [3, 0]" and ?a' = "sample_state [0, 1, 1, 0] [1, 2]"
  let ?b = "sample_state [1, 0, 0, 1] [1, 1, 0]" and ?b' = "sample_state [0, 1, 1, 0] [0, 1, 1]"
  have arr: "arrays (sample_state c e) 0 = c" "arrays (sample_state c e) 1 = e" for c e
    by (simp_all add: sample_state_def)
  have x: "exact_sum [1, 0, 0, 1]" "exact_sum [0, 1, 1, 0]" "exact_sum [3, 0]" "exact_sum [1, 2]"
    "exact_sum [1, 1, 0]" "exact_sum [0, 1, 1]"
    by (simp_all add: exact_sum_def)
  have xa: "exact_sum (arrays ?a 0)" "exact_sum (arrays ?a' 0)"
    "exact_sum (arrays ?a 1)" "exact_sum (arrays ?a' 1)"
    and xb: "exact_sum (arrays ?b 0)" "exact_sum (arrays ?b' 0)"
    "exact_sum (arrays ?b 1)" "exact_sum (arrays ?b' 1)"
    unfolding arr by (rule x)+
  have h1: "length (arrays ?a 0) = length (arrays ?a' 0)
     \<and> sum_list (arrays ?a 0) = sum_list (arrays ?a' 0)
     \<and> length (arrays ?a 1) = length (arrays ?a' 1)
     \<and> sum_list (arrays ?a 1) = sum_list (arrays ?a' 1)"
    unfolding arr by simp
  have h2: "mset (arrays ?b 0) = mset (arrays ?b' 0) \<and> mset (arrays ?b 1) = mset (arrays ?b' 1)"
    unfolding arr by simp
  from depends_on_length_and_sum
         [OF xa disjI1 [OF h1], where ndtri = ndtri_logistic and alpha = "5 / 100" and tails = 2]
       depends_on_length_and_sum
         [OF xb disjI2 [OF h2], where ndtri = ndtri_logistic and alpha = "5 / 100" and tails = 2]
       x h2
  show ?thesis unfolding arr by blast
qed

end
